theory Spec2Isabelle
  imports Complex_Main "HOL-Library.Log_Nat"
begin

section \<open>JavaScript values of the ROI calculator\<close>

text \<open>
  The calculator (\<^verbatim>\<open>src/pages/Index.tsx\<close>) computes with JavaScript numbers, which are
  IEEE 754 binary64 doubles. A value of the model is \<^verbatim>\<open>undefined\<close>, \<^verbatim>\<open>NaN\<close>, one of the
  two infinities, or a finite number \<open>Num r\<close>, where \<open>r\<close> is the rational that the
  double denotes. Every sum, difference, product and quotient of finite numbers is the exact
  rational result rounded to binary64 (\<open>round64\<close>), so that it rounds, overflows to an
  infinity and underflows as the program does. The two zeros \<^verbatim>\<open>+0\<close> and \<^verbatim>\<open>-0\<close> are one
  value: they are equal under \<^verbatim>\<open>===\<close> and under the comparisons, both are falsy, and
  \<^verbatim>\<open>computeCalcs\<close> never divides by a zero.
\<close>

datatype jsval = Undefined | NaN | NegInfinity | Num rat | Infinity

subsection \<open>Rounding to binary64\<close>

text \<open>Rounding to the nearest integer, a tie going to the even one.\<close>

definition roundHalfEven :: "rat \<Rightarrow> int" where
  "roundHalfEven y =
     (let f = \<lfloor>y\<rfloor>; d = y - of_int f
      in if d < 1 / 2 then f else if 1 / 2 < d then f + 1 else if even f then f else f + 1)"

text \<open>
  The binary exponent of a positive rational \<open>a\<close>: the \<open>e\<close> with
  \<open>2 powi e \<le> a < 2 powi (e + 1)\<close>, from the bit lengths of numerator and denominator.
\<close>

definition floorLog2 :: "rat \<Rightarrow> int" where
  "floorLog2 a =
     (let e0 = bitlen (fst (quotient_of a)) - bitlen (snd (quotient_of a))
      in if 2 powi e0 \<le> a then e0 else e0 - 1)"

text \<open>
  The exponent of the unit in the last place: 52 binary places below the leading bit, and
  never below \<open>-1074\<close>, the exponent of the smallest subnormal.
\<close>

definition ulpExponent :: "rat \<Rightarrow> int" where
  "ulpExponent a = max (floorLog2 a - 52) (- 1074)"

text \<open>The magnitude \<open>a > 0\<close> rounded to a multiple of its unit in the last place.\<close>

definition roundMagnitude :: "rat \<Rightarrow> rat" where
  "roundMagnitude a =
     of_int (roundHalfEven (a / 2 powi ulpExponent a)) * 2 powi ulpExponent a"

text \<open>
  Round to nearest, ties to even; a magnitude that rounds to \<open>2 ^ 1024\<close> or more
  overflows to the infinity of its sign.
\<close>

definition round64 :: "rat \<Rightarrow> jsval" where
  "round64 x =
     (if x = 0 then Num 0
      else if 2 ^ 1024 \<le> roundMagnitude \<bar>x\<bar>
        then (if 0 < x then Infinity else NegInfinity)
        else Num (if 0 < x then roundMagnitude \<bar>x\<bar> else - roundMagnitude \<bar>x\<bar>))"

text \<open>A rational is a double when rounding leaves it as it is.\<close>

definition isDouble :: "rat \<Rightarrow> bool" where
  "isDouble t \<longleftrightarrow> round64 t = Num t"

subsection \<open>Operators\<close>

text \<open>\<^verbatim>\<open>ToNumber\<close>: arithmetic and \<^verbatim>\<open>Math.max\<close> read \<^verbatim>\<open>undefined\<close> as \<^verbatim>\<open>NaN\<close>.\<close>

fun toNumber :: "jsval \<Rightarrow> jsval" where
  "toNumber Undefined = NaN"
| "toNumber v = v"

text \<open>Truthiness of a value: \<^verbatim>\<open>undefined\<close>, \<^verbatim>\<open>NaN\<close> and zero are falsy.\<close>

fun truthy :: "jsval \<Rightarrow> bool" where
  "truthy Undefined = False"
| "truthy NaN = False"
| "truthy (Num r) = (r \<noteq> 0)"
| "truthy NegInfinity = True"
| "truthy Infinity = True"

text \<open>\<^verbatim>\<open>a || b\<close> and \<^verbatim>\<open>a ?? b\<close>.\<close>

definition jor :: "jsval \<Rightarrow> jsval \<Rightarrow> jsval" where
  "jor a b = (if truthy a then a else b)"

definition jnullish :: "jsval \<Rightarrow> jsval \<Rightarrow> jsval" where
  "jnullish a b = (if a = Undefined then b else a)"

text \<open>
  Unary minus, \<^verbatim>\<open>a + b\<close>, \<^verbatim>\<open>a - b\<close>, \<^verbatim>\<open>a * b\<close> and \<^verbatim>\<open>a / b\<close> on numbers: on two
  finite numbers, the exact result rounded to binary64.
\<close>

fun jneg :: "jsval \<Rightarrow> jsval" where
  "jneg (Num r) = Num (- r)"
| "jneg Infinity = NegInfinity"
| "jneg NegInfinity = Infinity"
| "jneg v = NaN"

fun add_num :: "jsval \<Rightarrow> jsval \<Rightarrow> jsval" where
  "add_num (Num a) (Num b) = round64 (a + b)"
| "add_num (Num a) Infinity = Infinity"
| "add_num (Num a) NegInfinity = NegInfinity"
| "add_num Infinity (Num b) = Infinity"
| "add_num NegInfinity (Num b) = NegInfinity"
| "add_num Infinity Infinity = Infinity"
| "add_num NegInfinity NegInfinity = NegInfinity"
| "add_num a b = NaN"

definition jadd :: "jsval \<Rightarrow> jsval \<Rightarrow> jsval" where
  "jadd a b = add_num (toNumber a) (toNumber b)"

definition jsub :: "jsval \<Rightarrow> jsval \<Rightarrow> jsval" where
  "jsub a b = add_num (toNumber a) (jneg (toNumber b))"

text \<open>The sign of a number that is not \<^verbatim>\<open>NaN\<close>: \<open>-1\<close>, \<open>0\<close> or \<open>1\<close>.\<close>

fun sign_of :: "jsval \<Rightarrow> int" where
  "sign_of (Num r) = (if r < 0 then - 1 else if r = 0 then 0 else 1)"
| "sign_of Infinity = 1"
| "sign_of NegInfinity = - 1"
| "sign_of v = 0"

definition inf_of_sign :: "int \<Rightarrow> jsval" where
  "inf_of_sign sg = (if sg = 0 then NaN else if 0 < sg then Infinity else NegInfinity)"

fun mul_num :: "jsval \<Rightarrow> jsval \<Rightarrow> jsval" where
  "mul_num Undefined b = NaN"
| "mul_num a Undefined = NaN"
| "mul_num NaN b = NaN"
| "mul_num a NaN = NaN"
| "mul_num (Num a) (Num b) = round64 (a * b)"
| "mul_num a b = inf_of_sign (sign_of a * sign_of b)"

definition jmul :: "jsval \<Rightarrow> jsval \<Rightarrow> jsval" where
  "jmul a b = mul_num (toNumber a) (toNumber b)"

text \<open>
  Division. A finite number divided by an infinity is zero, an infinity divided by an
  infinity is \<^verbatim>\<open>NaN\<close>, and a zero divisor (read as \<^verbatim>\<open>+0\<close>) gives an infinity of the
  dividend's sign, or \<^verbatim>\<open>NaN\<close> for \<^verbatim>\<open>0 / 0\<close>.
\<close>

fun div_num :: "jsval \<Rightarrow> jsval \<Rightarrow> jsval" where
  "div_num Undefined b = NaN"
| "div_num a Undefined = NaN"
| "div_num NaN b = NaN"
| "div_num a NaN = NaN"
| "div_num (Num a) (Num b) =
     (if b = 0 then inf_of_sign (sign_of (Num a)) else round64 (a / b))"
| "div_num (Num a) b = Num 0"
| "div_num a (Num b) = inf_of_sign (sign_of a * (if b < 0 then - 1 else 1))"
| "div_num a b = NaN"

definition jdiv :: "jsval \<Rightarrow> jsval \<Rightarrow> jsval" where
  "jdiv a b = div_num (toNumber a) (toNumber b)"

text \<open>
  The comparisons \<^verbatim>\<open>a > b\<close> and \<^verbatim>\<open>a >= b\<close>: false as soon as one side is
  \<^verbatim>\<open>NaN\<close>.
\<close>

fun less_num :: "jsval \<Rightarrow> jsval \<Rightarrow> bool" where
  "less_num (Num a) (Num b) = (a < b)"
| "less_num NegInfinity (Num b) = True"
| "less_num NegInfinity Infinity = True"
| "less_num (Num a) Infinity = True"
| "less_num a b = False"

definition jgt :: "jsval \<Rightarrow> jsval \<Rightarrow> bool" where
  "jgt a b = less_num (toNumber b) (toNumber a)"

definition jge :: "jsval \<Rightarrow> jsval \<Rightarrow> bool" where
  "jge a b = (toNumber a \<noteq> NaN \<and> toNumber b \<noteq> NaN \<and>
              (less_num (toNumber b) (toNumber a) \<or> toNumber a = toNumber b))"

text \<open>\<^verbatim>\<open>Math.max(a, b)\<close>: \<^verbatim>\<open>NaN\<close> if one argument is, the larger one otherwise.\<close>

definition jmax :: "jsval \<Rightarrow> jsval \<Rightarrow> jsval" where
  "jmax a b =
     (if toNumber a = NaN \<or> toNumber b = NaN then NaN
      else if less_num (toNumber a) (toNumber b) then toNumber b else toNumber a)"

section \<open>The input record and the derived metrics\<close>

text \<open>
  The fields of \<^verbatim>\<open>state\<close> that \<^verbatim>\<open>computeCalcs\<close> reads, in the order of
  \<^verbatim>\<open>DEFAULTS\<close>. The other keys of the state (branding strings, two revenue figures and
  the bid win rate, none of which \<^verbatim>\<open>computeCalcs\<close> reads) are the extension of the record.
\<close>

record state =
  flightsPerWeek :: jsval
  weeksPerYear :: jsval
  teamMembers :: jsval
  manualHoursPerFlight :: jsval
  droneHoursPerFlight :: jsval
  hourlyRate :: jsval
  travelHoursSavedPerFlight :: jsval
  avgReworkCostPerProject :: jsval
  reworkRateBaseline :: jsval
  reworkRateWithDD :: jsval
  safetyIncidentsBaseline :: jsval
  safetyIncidentsWithDD :: jsval
  costPerSafetyIncident :: jsval
  softwareAnnualCost :: jsval
  hardwareAnnualCost :: jsval
  otherAnnualCosts :: jsval
  number_of_projects_per_year :: jsval
  average_construction_cost :: jsval
  number_of_projects_you_submit_for_bid :: jsval
  estimated_total_travel_costs_per_year :: jsval
  estimated_total_destructive_investigation_expenses_per_year :: jsval
  estimated_cost_of_organizing_and_sharing_images_per_year :: jsval
  estimated_cost_of_safety_and_qa_qc_inspections_per_year :: jsval
  estimated_total_insurance_costs_per_year :: jsval
  working_hours_per_day :: jsval
  revenue_per_day :: jsval
  travel_reduction_pct :: jsval
  investigations_reduction_pct :: jsval
  doc_efficiency_improvement_pct :: jsval
  insurance_premium_reduction_pct :: jsval
  schedule_acceleration_pct :: jsval
  win_rate_uplift_pct :: jsval

text \<open>An entry \<^verbatim>\<open>{ label, value }\<close> of the breakdown.\<close>

record item =
  label :: string
  val :: jsval

record calcs =
  flightsPerYear :: jsval
  timeSavedPerFlight :: jsval
  hoursSavedAnnual :: jsval
  laborSavings :: jsval
  travelSavings :: jsval
  reworkSavings :: jsval
  safetySavings :: jsval
  opsSavings :: jsval
  baseTravel :: jsval
  baseInvestigations :: jsval
  baseDoc :: jsval
  baseInsurance :: jsval
  travelSavings2 :: jsval
  diSavings :: jsval
  docSavings :: jsval
  insuranceSavings2 :: jsval
  workingHoursPerDay :: jsval
  revenuePerDay :: jsval
  scheduleDaysSaved :: jsval
  scheduleRevenueGain :: jsval
  winMoreRevenueGain :: jsval
  efficiencyGains2 :: jsval
  increasedRevenues2 :: jsval
  totalSavings :: jsval
  totalCosts :: jsval
  netAnnual :: jsval
  roiPct :: jsval
  paybackMonths :: jsval
  breakdown :: "item list"

section \<open>computeCalcs\<close>

text \<open>
  The function \<^verbatim>\<open>computeCalcs(state)\<close>, one binding for each \<^verbatim>\<open>const\<close> of the
  source, in the source's order; a primed name is the local constant of that name. The
  arrow in the ninth label is the three bytes of its UTF-8 encoding.
\<close>

definition computeCalcs :: "'a state_scheme \<Rightarrow> calcs" where
  "computeCalcs state =
    (let flightsPerYear' = jmul (flightsPerWeek state) (weeksPerYear state);
         timeSavedPerFlight' =
           jmul (jmax (Num 0) (jsub (manualHoursPerFlight state) (droneHoursPerFlight state)))
                (jmax (Num 1) (teamMembers state));
         hoursSavedAnnual' = jmul flightsPerYear' timeSavedPerFlight';
         laborSavings' = jmul hoursSavedAnnual' (hourlyRate state);
         travelSavings' =
           jmul (jmul (jmul flightsPerYear' (jmax (Num 0) (travelHoursSavedPerFlight state)))
                      (hourlyRate state))
                (jmax (Num 1) (teamMembers state));
         deltaReworkRate =
           jmax (Num 0) (jsub (reworkRateBaseline state) (reworkRateWithDD state));
         reworkSavings' =
           jmul (jmul flightsPerYear' deltaReworkRate)
                (jmax (Num 0) (avgReworkCostPerProject state));
         safetyDelta =
           jmax (Num 0) (jsub (safetyIncidentsBaseline state) (safetyIncidentsWithDD state));
         safetySavings' = jmul safetyDelta (jmax (Num 0) (costPerSafetyIncident state));
         opsSavings' =
           jadd (jadd (jadd laborSavings' travelSavings') reworkSavings') safetySavings';
         baseTravel' =
           jmax (Num 0) (jor (estimated_total_travel_costs_per_year state) (Num 0));
         baseInvestigations' =
           jmax (Num 0)
             (jor (estimated_total_destructive_investigation_expenses_per_year state) (Num 0));
         baseDoc' =
           jmax (Num 0)
             (jadd (jor (estimated_cost_of_organizing_and_sharing_images_per_year state) (Num 0))
                   (jor (estimated_cost_of_safety_and_qa_qc_inspections_per_year state) (Num 0)));
         baseInsurance' =
           jmax (Num 0) (jor (estimated_total_insurance_costs_per_year state) (Num 0));
         travelSavings2' =
           jmul baseTravel' (jmax (Num 0) (jnullish (travel_reduction_pct state) (Num 0)));
         diSavings' =
           jmul baseInvestigations'
                (jmax (Num 0) (jnullish (investigations_reduction_pct state) (Num 0)));
         docSavings' =
           jmul baseDoc' (jmax (Num 0) (jnullish (doc_efficiency_improvement_pct state) (Num 0)));
         insuranceSavings2' =
           jmul baseInsurance'
                (jmax (Num 0) (jnullish (insurance_premium_reduction_pct state) (Num 0)));
         workingHoursPerDay' = jmax (Num 1) (jor (working_hours_per_day state) (Num 8));
         revenuePerDay' =
           jmax (Num 0)
             (jor (revenue_per_day state)
                  (jdiv (jmul (jor (average_construction_cost state) (Num 0))
                              (jmax (Num 0) (jor (number_of_projects_per_year state) (Num 0))))
                        (Num 365)));
         scheduleDaysSaved' =
           jmul (jdiv hoursSavedAnnual' workingHoursPerDay')
                (jmax (Num 0) (jnullish (schedule_acceleration_pct state) (Num 0)));
         scheduleRevenueGain' = jmul revenuePerDay' scheduleDaysSaved';
         winMoreRevenueGain' =
           jmax (Num 0)
             (jmul (jmul (jor (average_construction_cost state) (Num 0))
                         (jmax (Num 0)
                            (jor (number_of_projects_you_submit_for_bid state) (Num 0))))
                   (jmax (Num 0) (jnullish (win_rate_uplift_pct state) (Num 0))));
         efficiencyGains2' =
           jadd (jadd (jadd travelSavings2' diSavings') docSavings') insuranceSavings2';
         increasedRevenues2' = jadd scheduleRevenueGain' winMoreRevenueGain';
         totalSavings' = jadd (jadd opsSavings' efficiencyGains2') increasedRevenues2';
         totalCosts' =
           jadd (jadd (jmax (Num 0) (softwareAnnualCost state))
                      (jmax (Num 0) (hardwareAnnualCost state)))
                (jmax (Num 0) (otherAnnualCosts state));
         netAnnual' = jsub totalSavings' totalCosts';
         roiPct' = (if jgt totalCosts' (Num 0) then jdiv netAnnual' totalCosts' else Infinity);
         paybackMonths' =
           (if jgt totalSavings' (Num 0)
            then jmul (jdiv totalCosts' totalSavings') (Num 12) else Infinity);
         breakdown' =
           [\<lparr>label = ''Ops: Labor time saved'', val = laborSavings'\<rparr>,
            \<lparr>label = ''Ops: Travel time saved'', val = travelSavings'\<rparr>,
            \<lparr>label = ''Ops: Rework reduction'', val = reworkSavings'\<rparr>,
            \<lparr>label = ''Ops: Safety risk reduction'', val = safetySavings'\<rparr>,
            \<lparr>label = ''Travel reduction (from spreadsheet)'', val = travelSavings2'\<rparr>,
            \<lparr>label = ''Destructive investigations avoided'', val = diSavings'\<rparr>,
            \<lparr>label = ''Documentation efficiency'', val = docSavings'\<rparr>,
            \<lparr>label = ''Insurance premium reduction'', val = insuranceSavings2'\<rparr>,
            \<lparr>label = ''Schedule acceleration (days'' @ [CHR 0xE2, CHR 0x86, CHR 0x92]
                       @ ''revenue)'',
             val = scheduleRevenueGain'\<rparr>,
            \<lparr>label = ''Win-rate uplift (revenue)'', val = winMoreRevenueGain'\<rparr>]
     in \<lparr>flightsPerYear = flightsPerYear',
         timeSavedPerFlight = timeSavedPerFlight',
         hoursSavedAnnual = hoursSavedAnnual',
         laborSavings = laborSavings',
         travelSavings = travelSavings',
         reworkSavings = reworkSavings',
         safetySavings = safetySavings',
         opsSavings = opsSavings',
         baseTravel = baseTravel',
         baseInvestigations = baseInvestigations',
         baseDoc = baseDoc',
         baseInsurance = baseInsurance',
         travelSavings2 = travelSavings2',
         diSavings = diSavings',
         docSavings = docSavings',
         insuranceSavings2 = insuranceSavings2',
         workingHoursPerDay = workingHoursPerDay',
         revenuePerDay = revenuePerDay',
         scheduleDaysSaved = scheduleDaysSaved',
         scheduleRevenueGain = scheduleRevenueGain',
         winMoreRevenueGain = winMoreRevenueGain',
         efficiencyGains2 = efficiencyGains2',
         increasedRevenues2 = increasedRevenues2',
         totalSavings = totalSavings',
         totalCosts = totalCosts',
         netAnnual = netAnnual',
         roiPct = roiPct',
         paybackMonths = paybackMonths',
         breakdown = breakdown'\<rparr>)"


section \<open>Input records\<close>

text \<open>A finite number: neither \<^verbatim>\<open>undefined\<close>, \<^verbatim>\<open>NaN\<close> nor an infinity.\<close>

fun isFinite :: "jsval \<Rightarrow> bool" where
  "isFinite (Num r) = True"
| "isFinite v = False"

text \<open>
  An Input Record is complete and numeric: each of the thirty-two fields that
  \<^verbatim>\<open>computeCalcs\<close> reads holds a finite number.
\<close>

definition finite_inputs :: "'a state_scheme \<Rightarrow> bool" where
  "finite_inputs s \<longleftrightarrow>
     isFinite (flightsPerWeek s) \<and> isFinite (weeksPerYear s) \<and> isFinite (teamMembers s) \<and>
     isFinite (manualHoursPerFlight s) \<and> isFinite (droneHoursPerFlight s) \<and>
     isFinite (hourlyRate s) \<and> isFinite (travelHoursSavedPerFlight s) \<and>
     isFinite (avgReworkCostPerProject s) \<and> isFinite (reworkRateBaseline s) \<and>
     isFinite (reworkRateWithDD s) \<and> isFinite (safetyIncidentsBaseline s) \<and>
     isFinite (safetyIncidentsWithDD s) \<and> isFinite (costPerSafetyIncident s) \<and>
     isFinite (softwareAnnualCost s) \<and> isFinite (hardwareAnnualCost s) \<and>
     isFinite (otherAnnualCosts s) \<and> isFinite (number_of_projects_per_year s) \<and>
     isFinite (average_construction_cost s) \<and>
     isFinite (number_of_projects_you_submit_for_bid s) \<and>
     isFinite (estimated_total_travel_costs_per_year s) \<and>
     isFinite (estimated_total_destructive_investigation_expenses_per_year s) \<and>
     isFinite (estimated_cost_of_organizing_and_sharing_images_per_year s) \<and>
     isFinite (estimated_cost_of_safety_and_qa_qc_inspections_per_year s) \<and>
     isFinite (estimated_total_insurance_costs_per_year s) \<and>
     isFinite (working_hours_per_day s) \<and> isFinite (revenue_per_day s) \<and>
     isFinite (travel_reduction_pct s) \<and> isFinite (investigations_reduction_pct s) \<and>
     isFinite (doc_efficiency_improvement_pct s) \<and>
     isFinite (insurance_premium_reduction_pct s) \<and>
     isFinite (schedule_acceleration_pct s) \<and> isFinite (win_rate_uplift_pct s)"

text \<open>
  The numeric defaults of \<^verbatim>\<open>DEFAULTS\<close> that \<^verbatim>\<open>computeCalcs\<close> reads. A decimal literal
  such as \<^verbatim>\<open>0.12\<close> is the double nearest to it.
\<close>

definition DEFAULTS :: state where
  "DEFAULTS =
    \<lparr>flightsPerWeek = Num 5,
     weeksPerYear = Num 48,
     teamMembers = Num 2,
     manualHoursPerFlight = Num 3,
     droneHoursPerFlight = Num 1,
     hourlyRate = Num 75,
     travelHoursSavedPerFlight = Num 1,
     avgReworkCostPerProject = Num 1200,
     reworkRateBaseline = round64 (12 / 100),
     reworkRateWithDD = round64 (5 / 100),
     safetyIncidentsBaseline = Num 2,
     safetyIncidentsWithDD = Num 1,
     costPerSafetyIncident = Num 5000,
     softwareAnnualCost = Num 12000,
     hardwareAnnualCost = Num 5000,
     otherAnnualCosts = Num 2000,
     number_of_projects_per_year = Num 3,
     average_construction_cost = Num 15000000,
     number_of_projects_you_submit_for_bid = Num 6,
     estimated_total_travel_costs_per_year = Num 139644,
     estimated_total_destructive_investigation_expenses_per_year = Num 57600,
     estimated_cost_of_organizing_and_sharing_images_per_year = Num 78750,
     estimated_cost_of_safety_and_qa_qc_inspections_per_year = Num 504000,
     estimated_total_insurance_costs_per_year = Num 1350000,
     working_hours_per_day = Num 8,
     revenue_per_day = Num 123288,
     travel_reduction_pct = round64 (5 / 10),
     investigations_reduction_pct = round64 (5 / 10),
     doc_efficiency_improvement_pct = round64 (62 / 10000),
     insurance_premium_reduction_pct = round64 (1 / 10),
     schedule_acceleration_pct = round64 (3333 / 10000),
     win_rate_uplift_pct = round64 (5 / 10)\<rparr>"

text \<open>A value that is not negative: \<^verbatim>\<open>NaN\<close>, or at least zero.\<close>

definition notNegative :: "jsval \<Rightarrow> bool" where
  "notNegative v \<longleftrightarrow> v = NaN \<or> jge v (Num 0)"

section \<open>Definitions used to state the properties\<close>

text \<open>
  The inputs on which the source calls \<^verbatim>\<open>Math.max(0, x)\<close> (or \<^verbatim>\<open>Math.max(1, x)\<close>,
  for \<^verbatim>\<open>teamMembers\<close>), each replaced by its clamped value. This is not a function of
  the source: it states what "clamped before use" means, namely that \<^verbatim>\<open>computeCalcs\<close>
  cannot tell an input from its clamped value.
\<close>

definition clampInputs :: "'a state_scheme \<Rightarrow> 'a state_scheme" where
  "clampInputs s =
     s\<lparr>teamMembers := jmax (Num 1) (teamMembers s),
       travelHoursSavedPerFlight := jmax (Num 0) (travelHoursSavedPerFlight s),
       avgReworkCostPerProject := jmax (Num 0) (avgReworkCostPerProject s),
       costPerSafetyIncident := jmax (Num 0) (costPerSafetyIncident s),
       softwareAnnualCost := jmax (Num 0) (softwareAnnualCost s),
       hardwareAnnualCost := jmax (Num 0) (hardwareAnnualCost s),
       otherAnnualCosts := jmax (Num 0) (otherAnnualCosts s),
       number_of_projects_per_year := jmax (Num 0) (number_of_projects_per_year s),
       number_of_projects_you_submit_for_bid :=
         jmax (Num 0) (number_of_projects_you_submit_for_bid s),
       estimated_total_travel_costs_per_year :=
         jmax (Num 0) (estimated_total_travel_costs_per_year s),
       estimated_total_destructive_investigation_expenses_per_year :=
         jmax (Num 0) (estimated_total_destructive_investigation_expenses_per_year s),
       estimated_total_insurance_costs_per_year :=
         jmax (Num 0) (estimated_total_insurance_costs_per_year s),
       travel_reduction_pct := jmax (Num 0) (travel_reduction_pct s),
       investigations_reduction_pct := jmax (Num 0) (investigations_reduction_pct s),
       doc_efficiency_improvement_pct := jmax (Num 0) (doc_efficiency_improvement_pct s),
       insurance_premium_reduction_pct := jmax (Num 0) (insurance_premium_reduction_pct s),
       schedule_acceleration_pct := jmax (Num 0) (schedule_acceleration_pct s),
       win_rate_uplift_pct := jmax (Num 0) (win_rate_uplift_pct s)\<rparr>"

text \<open>An input record with every field zero, from which example inputs are built.\<close>

definition ZEROS :: state where
  "ZEROS =
    \<lparr>flightsPerWeek = Num 0, weeksPerYear = Num 0, teamMembers = Num 0,
     manualHoursPerFlight = Num 0, droneHoursPerFlight = Num 0, hourlyRate = Num 0,
     travelHoursSavedPerFlight = Num 0, avgReworkCostPerProject = Num 0,
     reworkRateBaseline = Num 0, reworkRateWithDD = Num 0,
     safetyIncidentsBaseline = Num 0, safetyIncidentsWithDD = Num 0,
     costPerSafetyIncident = Num 0, softwareAnnualCost = Num 0,
     hardwareAnnualCost = Num 0, otherAnnualCosts = Num 0,
     number_of_projects_per_year = Num 0, average_construction_cost = Num 0,
     number_of_projects_you_submit_for_bid = Num 0,
     estimated_total_travel_costs_per_year = Num 0,
     estimated_total_destructive_investigation_expenses_per_year = Num 0,
     estimated_cost_of_organizing_and_sharing_images_per_year = Num 0,
     estimated_cost_of_safety_and_qa_qc_inspections_per_year = Num 0,
     estimated_total_insurance_costs_per_year = Num 0,
     working_hours_per_day = Num 0, revenue_per_day = Num 0,
     travel_reduction_pct = Num 0, investigations_reduction_pct = Num 0,
     doc_efficiency_improvement_pct = Num 0, insurance_premium_reduction_pct = Num 0,
     schedule_acceleration_pct = Num 0, win_rate_uplift_pct = Num 0\<rparr>"

section \<open>Properties of the rounding\<close>

text \<open>Powers of two are ordered as their exponents are.\<close>

lemma pow2_less_iff: "(2::rat) powi m < 2 powi n \<longleftrightarrow> m < n"
proof
  assume "(2::rat) powi m < 2 powi n"
  show "m < n"
  proof (rule ccontr)
    assume "\<not> m < n"
    then have "(2::rat) powi n \<le> 2 powi m"
      by (intro power_int_increasing) simp_all
    with \<open>(2::rat) powi m < 2 powi n\<close> show False by simp
  qed
next
  assume "m < n"
  then show "(2::rat) powi m < 2 powi n"
    by (intro power_int_strict_increasing) simp_all
qed

lemma pow2_le_iff: "(2::rat) powi m \<le> 2 powi n \<longleftrightarrow> m \<le> n"
  using pow2_less_iff [of n m] by (simp add: not_less [symmetric])

text \<open>The bit length of a positive integer bounds it by powers of two.\<close>

lemma bitlen_powi:
  assumes "0 < n"
  shows "(2::rat) powi (bitlen n - 1) \<le> of_int n" and "(of_int n :: rat) < 2 powi bitlen n"
proof -
  from assms have b: "1 \<le> bitlen n"
    using bitlen_eq_zero_iff [of n] bitlen_nonneg [of n] by linarith
  from bitlen_bounds [OF assms]
  have lo: "(2::int) ^ nat (bitlen n - 1) \<le> n" and hi: "n < (2::int) ^ nat (bitlen n)"
    by simp_all
  from lo have "(of_int ((2::int) ^ nat (bitlen n - 1)) :: rat) \<le> of_int n"
    by (simp only: of_int_le_iff)
  then show "(2::rat) powi (bitlen n - 1) \<le> of_int n"
    using b by (simp add: power_int_nonneg_exp)
  from hi have "(of_int n :: rat) < of_int ((2::int) ^ nat (bitlen n))"
    by (simp only: of_int_less_iff)
  then show "(of_int n :: rat) < 2 powi bitlen n"
    using b by (simp add: power_int_nonneg_exp)
qed

lemma floorLog2_bounds:
  assumes "0 < a"
  shows "2 powi floorLog2 a \<le> a" and "a < 2 powi (floorLog2 a + 1)"
proof -
  obtain p d where pd: "quotient_of a = (p, d)"
    by force
  have d: "0 < d"
    by (rule quotient_of_denom_pos [OF pd])
  have a: "a = of_int p / of_int d"
    by (rule quotient_of_div [OF pd])
  have p: "0 < p"
    using assms d by (simp add: a zero_less_divide_iff)
  define e0 where "e0 = bitlen p - bitlen d"
  have D: "(0::rat) < of_int d"
    using d by simp
  have P: "(0::rat) < of_int p"
    using p by simp
  have "a < 2 powi bitlen p / 2 powi (bitlen d - 1)"
    unfolding a using bitlen_powi [OF p] bitlen_powi [OF d] P
    by (intro frac_less) simp_all
  also have "\<dots> = 2 powi (e0 + 1)"
    by (simp add: e0_def power_int_diff [symmetric] algebra_simps)
  finally have hi: "a < 2 powi (e0 + 1)" .
  have "2 powi (bitlen p - 1) / 2 powi bitlen d < a"
    unfolding a using bitlen_powi [OF p] bitlen_powi [OF d] D
    by (intro frac_less2) simp_all
  moreover have "2 powi (bitlen p - 1) / 2 powi bitlen d = (2::rat) powi (e0 - 1)"
    by (simp add: e0_def power_int_diff [symmetric] algebra_simps)
  ultimately have lo: "2 powi (e0 - 1) < a"
    by simp
  have fl: "floorLog2 a = (if 2 powi e0 \<le> a then e0 else e0 - 1)"
    by (simp add: floorLog2_def pd e0_def)
  show "2 powi floorLog2 a \<le> a"
    using lo by (simp add: fl less_imp_le)
  show "a < 2 powi (floorLog2 a + 1)"
    using hi by (simp add: fl not_le)
qed

lemma floorLog2_unique:
  assumes "2 powi k \<le> a" and "a < 2 powi (k + 1)"
  shows "floorLog2 a = k"
proof -
  have pos: "0 < a"
    using assms(1) by (rule less_le_trans [rotated]) simp
  note b = floorLog2_bounds [OF pos]
  have "(2::rat) powi k < 2 powi (floorLog2 a + 1)"
    using assms(1) b(2) by simp
  then have 1: "k < floorLog2 a + 1"
    by (simp add: pow2_less_iff)
  have "(2::rat) powi floorLog2 a < 2 powi (k + 1)"
    using assms(2) b(1) by simp
  then have 2: "floorLog2 a < k + 1"
    by (simp add: pow2_less_iff)
  from 1 2 show ?thesis by simp
qed

text \<open>
  The rounded magnitude is a multiple \<open>M * 2 powi q\<close> of the unit in the last place
  with \<open>M \<le> 2 ^ 53\<close>; such multiples are left as they are; and a magnitude of
  \<open>2 ^ 1024\<close> or more stays that large.
\<close>

lemma roundHalfEven_bounds: "\<lfloor>y\<rfloor> \<le> roundHalfEven y" "roundHalfEven y \<le> \<lfloor>y\<rfloor> + 1"
  by (simp_all add: roundHalfEven_def Let_def)

lemma roundHalfEven_of_int [simp]: "roundHalfEven (of_int n) = n"
  by (simp add: roundHalfEven_def)

lemma roundHalfEven_nonneg: "0 \<le> y \<Longrightarrow> 0 \<le> roundHalfEven y"
  using roundHalfEven_bounds(1) [of y] by (simp add: order_trans [of 0 "\<lfloor>y\<rfloor>"])

lemma roundHalfEven_ge: "of_int n \<le> y \<Longrightarrow> n \<le> roundHalfEven y"
  using roundHalfEven_bounds(1) [of y] by (simp add: le_floor_iff order_trans [of n "\<lfloor>y\<rfloor>"])

lemma roundHalfEven_le: "y < of_int n \<Longrightarrow> roundHalfEven y \<le> n"
  using roundHalfEven_bounds(2) [of y] by (simp add: floor_less_iff [symmetric])

lemma ulpExponent_ge: "- 1074 \<le> ulpExponent a"
  by (simp add: ulpExponent_def)

lemma scaled_less:
  assumes "0 < a"
  shows "a / 2 powi ulpExponent a < 2 ^ 53"
proof -
  have "a < 2 powi (floorLog2 a + 1)"
    by (rule floorLog2_bounds [OF assms])
  also have "(2::rat) powi (floorLog2 a + 1) \<le> 2 powi (ulpExponent a + 53)"
    by (simp add: pow2_le_iff ulpExponent_def)
  also have "\<dots> = 2 ^ 53 * 2 powi ulpExponent a"
    by (simp add: power_int_add)
  finally show ?thesis
    by (simp add: pos_divide_less_eq)
qed

lemma roundMagnitude_nonneg: "0 \<le> a \<Longrightarrow> 0 \<le> roundMagnitude a"
  by (simp add: roundMagnitude_def roundHalfEven_nonneg)

lemma roundMagnitude_range:
  assumes "0 < a"
  obtains M where "0 \<le> M" and "M \<le> 2 ^ 53"
    and "roundMagnitude a = of_int M * 2 powi ulpExponent a"
proof
  show "0 \<le> roundHalfEven (a / 2 powi ulpExponent a)"
    using assms by (intro roundHalfEven_nonneg) simp
  show "roundHalfEven (a / 2 powi ulpExponent a) \<le> 2 ^ 53"
    using scaled_less [OF assms] by (intro roundHalfEven_le) simp
  show "roundMagnitude a = of_int (roundHalfEven (a / 2 powi ulpExponent a)) * 2 powi ulpExponent a"
    by (simp add: roundMagnitude_def)
qed

lemma roundMagnitude_fixed:
  assumes M: "0 < M" "M \<le> 2 ^ 53" and q: "- 1074 \<le> q"
  shows "roundMagnitude (of_int M * 2 powi q) = of_int M * 2 powi q"
proof -
  let ?a = "of_int M * (2::rat) powi q"
  have pos: "0 < ?a"
    using M(1) by simp
  have le: "ulpExponent ?a \<le> q \<or> (M = 2 ^ 53 \<and> ulpExponent ?a = q + 1)"
  proof (cases "M = 2 ^ 53")
    case True
    have "?a = 2 powi (q + 53)"
      by (simp add: True power_int_add)
    then have "floorLog2 ?a = q + 53"
      by (intro floorLog2_unique) (simp_all add: pow2_less_iff)
    with q show ?thesis
      by (simp add: True ulpExponent_def)
  next
    case False
    with M(2) have "M < 2 ^ 53" by simp
    then have "(of_int M :: rat) < 2 ^ 53"
      by (metis of_int_less_iff of_int_numeral of_int_power)
    then have "?a < 2 ^ 53 * 2 powi q"
      by (simp add: mult_strict_right_mono)
    also have "\<dots> = 2 powi (q + 53)"
      by (simp add: power_int_add)
    finally have "2 powi floorLog2 ?a < (2::rat) powi (q + 53)"
      using floorLog2_bounds(1) [OF pos] by simp
    then have "floorLog2 ?a < q + 53"
      by (simp add: pow2_less_iff)
    with q show ?thesis
      by (simp add: ulpExponent_def)
  qed
  obtain N :: int where N: "?a / 2 powi ulpExponent ?a = of_int N"
  proof (cases "ulpExponent ?a \<le> q")
    case True
    have "?a / 2 powi ulpExponent ?a = of_int M * 2 powi (q - ulpExponent ?a)"
      by (simp add: power_int_diff)
    also have "\<dots> = of_int (M * 2 ^ nat (q - ulpExponent ?a))"
      using True by (simp add: power_int_nonneg_exp)
    finally show ?thesis by (rule that)
  next
    case False
    with le have "M = 2 ^ 53 \<and> ulpExponent ?a = q + 1" by blast
    then have m: "M = 2 ^ 53" and u: "ulpExponent ?a = q + 1" by blast+
    have "?a / 2 powi ulpExponent ?a = ?a / 2 powi (q + 1)"
      by (simp only: u)
    also have "\<dots> = of_int (2 ^ 52)"
      by (simp add: m power_int_add)
    finally show ?thesis by (rule that)
  qed
  have "roundMagnitude ?a = of_int N * 2 powi ulpExponent ?a"
    unfolding roundMagnitude_def N by simp
  also have "\<dots> = ?a"
    unfolding N [symmetric] by simp
  finally show ?thesis .
qed

lemma roundMagnitude_overflow:
  assumes "2 ^ 1024 \<le> a"
  shows "2 ^ 1024 \<le> roundMagnitude a"
proof -
  have pos: "0 < a"
    using assms by (rule less_le_trans [rotated]) simp
  have "(2::rat) powi 1024 \<le> a"
    using assms by simp
  then have "(2::rat) powi 1024 < 2 powi (floorLog2 a + 1)"
    using floorLog2_bounds(2) [OF pos] by (rule le_less_trans)
  then have "1024 < floorLog2 a + 1"
    by (simp only: pow2_less_iff)
  then have e: "1024 \<le> floorLog2 a"
    by simp
  then have u: "ulpExponent a = floorLog2 a - 52"
    by (simp add: ulpExponent_def)
  have "(2::rat) ^ 52 * 2 powi ulpExponent a = 2 powi floorLog2 a"
    by (simp add: u power_int_diff)
  also have "\<dots> \<le> a"
    by (rule floorLog2_bounds(1) [OF pos])
  finally have "of_int (2 ^ 52) \<le> a / 2 powi ulpExponent a"
    by (simp add: pos_le_divide_eq)
  then have "2 ^ 52 \<le> roundHalfEven (a / 2 powi ulpExponent a)"
    by (rule roundHalfEven_ge)
  then have "(2::rat) ^ 52 \<le> of_int (roundHalfEven (a / 2 powi ulpExponent a))"
    by (metis of_int_le_iff of_int_numeral of_int_power)
  then have "(2::rat) ^ 52 * 2 powi ulpExponent a \<le> roundMagnitude a"
    by (simp add: roundMagnitude_def mult_right_mono)
  moreover have "(2::rat) ^ 1024 \<le> 2 ^ 52 * 2 powi ulpExponent a"
  proof -
    have "(2::rat) powi 1024 \<le> 2 powi floorLog2 a"
      using e by (simp only: pow2_le_iff)
    also have "\<dots> = 2 ^ 52 * 2 powi ulpExponent a"
      by (simp add: u power_int_diff)
    finally show ?thesis by simp
  qed
  ultimately show ?thesis by simp
qed

text \<open>
  Rounding keeps the sign, commutes with negation, is the identity on its own results
  (every result is a double), on the integers up to \<open>2 ^ 53\<close> in particular, and
  overflows from \<open>2 ^ 1024\<close> on. The last lemma computes the rounding of a given
  rational from its binary exponent.
\<close>

lemma round64_zero [simp]: "round64 0 = Num 0"
  by (simp add: round64_def)

lemma round64_minus: "round64 (- x) = jneg (round64 x)"
  by (simp add: round64_def)

lemma round64_pos:
  "0 < x \<Longrightarrow>
   round64 x = (if 2 ^ 1024 \<le> roundMagnitude x then Infinity else Num (roundMagnitude x))"
  by (simp add: round64_def)

lemma round64_nonneg:
  assumes "0 \<le> x"
  obtains "round64 x = Infinity" | r where "round64 x = Num r" and "0 \<le> r"
proof (cases "x = 0")
  case True
  then show ?thesis by (intro that(2) [of 0]) simp_all
next
  case False
  with assms have pos: "0 < x" by simp
  show ?thesis
  proof (cases "2 ^ 1024 \<le> roundMagnitude x")
    case True
    with pos have "round64 x = Infinity"
      by (simp only: round64_pos if_True)
    then show ?thesis by (rule that(1))
  next
    case False
    with pos have "round64 x = Num (roundMagnitude x)"
      by (simp only: round64_pos if_False)
    then show ?thesis
      using roundMagnitude_nonneg [OF assms] by (rule that(2))
  qed
qed

lemma round64_nonpos:
  assumes "x \<le> 0"
  obtains "round64 x = NegInfinity" | r where "round64 x = Num r" and "r \<le> 0"
proof -
  from assms have "0 \<le> - x" by simp
  then show ?thesis
  proof (cases rule: round64_nonneg)
    case 1
    then have "round64 x = NegInfinity"
      using round64_minus [of "- x"] by simp
    then show ?thesis by (rule that(1))
  next
    case (2 r)
    then have "round64 x = Num (- r)"
      using round64_minus [of "- x"] by simp
    with 2(2) show ?thesis by (intro that(2) [of "- r"]) simp_all
  qed
qed

lemma round64_fixed_pos:
  assumes "0 < M" "M \<le> 2 ^ 53" "- 1074 \<le> q" "of_int M * 2 powi q < (2::rat) ^ 1024"
  shows "round64 (of_int M * 2 powi q) = Num (of_int M * 2 powi q)"
proof -
  have "0 < of_int M * (2::rat) powi q"
    using assms(1) by simp
  then show ?thesis
    using assms(4) by (simp only: round64_pos roundMagnitude_fixed [OF assms(1-3)]) simp
qed

lemma round64_idem:
  assumes "round64 x = Num t"
  shows "round64 t = Num t"
proof -
  have pos: "round64 t = Num t" if y: "0 < y" and r: "round64 y = Num t" for y t
  proof -
    from r y have t: "t = roundMagnitude y" and lt: "roundMagnitude y < 2 ^ 1024"
      by (simp_all add: round64_pos split: if_splits)
    from roundMagnitude_range [OF y] obtain M where M: "0 \<le> M" "M \<le> 2 ^ 53"
      "roundMagnitude y = of_int M * 2 powi ulpExponent y"
      by blast
    show ?thesis
    proof (cases "M = 0")
      case True
      then show ?thesis by (simp add: t M(3))
    next
      case False
      with M(1) have "0 < M" by simp
      from round64_fixed_pos [OF this M(2) ulpExponent_ge] lt show ?thesis
        by (simp only: t M(3))
    qed
  qed
  consider "x = 0" | "0 < x" | "x < 0" by linarith
  then show ?thesis
  proof cases
    case 1
    with assms show ?thesis by simp
  next
    case 2
    then show ?thesis using assms by (rule pos)
  next
    case 3
    then have "0 < - x" by simp
    moreover have "round64 (- x) = Num (- t)"
      by (simp add: round64_minus assms)
    ultimately have "round64 (- t) = Num (- t)" by (rule pos)
    then show ?thesis
      using round64_minus [of "- t"] by simp
  qed
qed

lemma round64_overflow: "2 ^ 1024 \<le> x \<Longrightarrow> round64 x = Infinity"
proof -
  assume a: "2 ^ 1024 \<le> x"
  then have "0 < x"
    by (rule less_le_trans [rotated]) simp
  with roundMagnitude_overflow [OF a] show ?thesis
    by (simp only: round64_pos if_True)
qed

lemma round64_of_int:
  assumes "\<bar>n\<bar> \<le> 2 ^ 53"
  shows "round64 (of_int n) = Num (of_int n)"
proof -
  have pos: "round64 (of_int k) = Num (of_int k)" if "0 < k" "k \<le> 2 ^ 53" for k :: int
  proof -
    have "(of_int k :: rat) \<le> of_int (2 ^ 53)"
      using that(2) by (simp only: of_int_le_iff)
    then have "of_int k * 2 powi 0 < (2::rat) ^ 1024"
      by simp
    from round64_fixed_pos [OF that _ this] show ?thesis
      by simp
  qed
  consider "n = 0" | "0 < n" | "n < 0" by linarith
  then show ?thesis
  proof cases
    case 1
    then show ?thesis by simp
  next
    case 2
    with assms show ?thesis by (intro pos) simp_all
  next
    case 3
    with assms have "round64 (of_int (- n)) = Num (of_int (- n))"
      by (intro pos) simp_all
    then show ?thesis
      using round64_minus [of "of_int n"] by (cases "round64 (of_int n)") simp_all
  qed
qed

lemma round64_numeral [simp]:
  "numeral k \<le> (9007199254740992::int) \<Longrightarrow> round64 (numeral k) = Num (numeral k)"
  using round64_of_int [of "numeral k"] by simp

lemma round64_neg_numeral [simp]:
  "numeral k \<le> (9007199254740992::int) \<Longrightarrow> round64 (- numeral k) = Num (- numeral k)"
  using round64_of_int [of "- numeral k"] by simp

lemma round64_one [simp]: "round64 1 = Num 1"
  using round64_of_int [of 1] by simp

lemma round64_cert:
  assumes "2 powi e \<le> x" and "x < 2 powi (e + 1)"
  shows "round64 x =
     (if (2::rat) ^ 1024 \<le> of_int (roundHalfEven (x / 2 powi max (e - 52) (- 1074)))
                        * 2 powi max (e - 52) (- 1074)
      then Infinity
      else Num (of_int (roundHalfEven (x / 2 powi max (e - 52) (- 1074)))
                * 2 powi max (e - 52) (- 1074)))"
proof -
  have "0 < x"
    using assms(1) by (rule less_le_trans [rotated]) simp
  moreover have "floorLog2 x = e"
    using assms by (rule floorLog2_unique)
  ultimately show ?thesis
    by (simp only: round64_pos roundMagnitude_def ulpExponent_def)
qed

lemma floor_rat_numeral [simp]: "\<lfloor>numeral a / numeral b :: rat\<rfloor> = numeral a div numeral b"
  using floor_divide_of_int_eq [of "numeral a" "numeral b", where ?'a = rat] by simp

section \<open>Arithmetic on finite numbers\<close>

lemma jmul_Num [simp]: "jmul (Num a) (Num b) = round64 (a * b)"
  by (simp add: jmul_def)

lemma jadd_Num [simp]: "jadd (Num a) (Num b) = round64 (a + b)"
  by (simp add: jadd_def)

lemma jsub_Num [simp]: "jsub (Num a) (Num b) = round64 (a - b)"
  by (simp add: jsub_def)

lemma jdiv_Num [simp]: "b \<noteq> 0 \<Longrightarrow> jdiv (Num a) (Num b) = round64 (a / b)"
  by (simp add: jdiv_def)

lemma jmax_Num [simp]: "jmax (Num a) (Num b) = Num (max a b)"
  by (simp add: jmax_def max_def)

lemma jgt_Num [simp]: "jgt (Num a) (Num b) \<longleftrightarrow> b < a"
  by (simp add: jgt_def)

lemma jge_Num [simp]: "jge (Num a) (Num b) \<longleftrightarrow> b \<le> a"
  by (auto simp add: jge_def)

lemma jor_Num [simp]: "jor (Num a) b = (if a = 0 then b else Num a)"
  by (simp add: jor_def)

lemma jnullish_Num [simp]: "jnullish (Num a) b = Num a"
  by (simp add: jnullish_def)

lemma isFiniteE: "isFinite v \<Longrightarrow> (\<And>r. v = Num r \<Longrightarrow> P) \<Longrightarrow> P"
  by (cases v) simp_all

lemma isFinite_Num: "isFinite (Num r)"
  by simp

lemma isFinite_jmax: "isFinite a \<Longrightarrow> isFinite b \<Longrightarrow> isFinite (jmax a b)"
  by (elim isFiniteE) simp

lemma jor_Num_zero: "jor (Num a) (Num 0) = Num a"
  by simp

lemma isDouble_pow2_1023: "isDouble (2 ^ 1023)"
proof -
  have "round64 (of_int 1 * 2 powi 1023) = Num (of_int 1 * 2 powi 1023)"
    by (rule round64_fixed_pos) simp_all
  then show ?thesis
    by (simp add: isDouble_def)
qed

lemma round64_neg_one [simp]: "round64 (- 1) = Num (- 1)"
  using round64_of_int [of "- 1"] by simp

text \<open>The six decimal literals of the defaults, as doubles.\<close>

lemma DEFAULTS_literals:
  "round64 (12 / 100) = Num (1080863910568919 / 9007199254740992)"
  "round64 (5 / 100) = Num (3602879701896397 / 72057594037927936)"
  "round64 (5 / 10) = Num (1 / 2)"
  "round64 (62 / 10000) = Num (7148113328562451 / 1152921504606846976)"
  "round64 (1 / 10) = Num (3602879701896397 / 36028797018963968)"
  "round64 (3333 / 10000) = Num (6004199023210345 / 18014398509481984)"
proof -
  show "round64 (12 / 100) = Num (1080863910568919 / 9007199254740992)"
    by (simp add: round64_cert [where e = "- 4"] roundHalfEven_def Let_def)
  show "round64 (5 / 100) = Num (3602879701896397 / 72057594037927936)"
    by (simp add: round64_cert [where e = "- 5"] roundHalfEven_def Let_def)
  show "round64 (5 / 10) = Num (1 / 2)"
    by (simp add: round64_cert [where e = "- 1"] roundHalfEven_def Let_def)
  show "round64 (62 / 10000) = Num (7148113328562451 / 1152921504606846976)"
    by (simp add: round64_cert [where e = "- 8"] roundHalfEven_def Let_def)
  show "round64 (1 / 10) = Num (3602879701896397 / 36028797018963968)"
    by (simp add: round64_cert [where e = "- 4"] roundHalfEven_def Let_def)
  show "round64 (3333 / 10000) = Num (6004199023210345 / 18014398509481984)"
    by (simp add: round64_cert [where e = "- 2"] roundHalfEven_def Let_def)
qed

section \<open>The fields of the result\<close>

text \<open>Each field of the result, as the source defines it from the fields before it.\<close>

lemma breakdown_computeCalcs:
  "breakdown (computeCalcs s) =
     [\<lparr>label = ''Ops: Labor time saved'', val = laborSavings (computeCalcs s)\<rparr>,
      \<lparr>label = ''Ops: Travel time saved'', val = travelSavings (computeCalcs s)\<rparr>,
      \<lparr>label = ''Ops: Rework reduction'', val = reworkSavings (computeCalcs s)\<rparr>,
      \<lparr>label = ''Ops: Safety risk reduction'', val = safetySavings (computeCalcs s)\<rparr>,
      \<lparr>label = ''Travel reduction (from spreadsheet)'', val = travelSavings2 (computeCalcs s)\<rparr>,
      \<lparr>label = ''Destructive investigations avoided'', val = diSavings (computeCalcs s)\<rparr>,
      \<lparr>label = ''Documentation efficiency'', val = docSavings (computeCalcs s)\<rparr>,
      \<lparr>label = ''Insurance premium reduction'', val = insuranceSavings2 (computeCalcs s)\<rparr>,
      \<lparr>label = ''Schedule acceleration (days'' @ [CHR 0xE2, CHR 0x86, CHR 0x92]
                 @ ''revenue)'',
       val = scheduleRevenueGain (computeCalcs s)\<rparr>,
      \<lparr>label = ''Win-rate uplift (revenue)'', val = winMoreRevenueGain (computeCalcs s)\<rparr>]"
  by (simp add: computeCalcs_def Let_def)

lemma flightsPerYear_eq:
  "flightsPerYear (computeCalcs s) = jmul (flightsPerWeek s) (weeksPerYear s)"
  by (simp add: computeCalcs_def Let_def)

lemma timeSavedPerFlight_eq:
  "timeSavedPerFlight (computeCalcs s) =
     jmul (jmax (Num 0) (jsub (manualHoursPerFlight s) (droneHoursPerFlight s)))
          (jmax (Num 1) (teamMembers s))"
  by (simp add: computeCalcs_def Let_def)

lemma hoursSavedAnnual_eq:
  "hoursSavedAnnual (computeCalcs s) =
     jmul (flightsPerYear (computeCalcs s)) (timeSavedPerFlight (computeCalcs s))"
  by (simp add: computeCalcs_def Let_def)

lemma laborSavings_eq:
  "laborSavings (computeCalcs s) = jmul (hoursSavedAnnual (computeCalcs s)) (hourlyRate s)"
  by (simp add: computeCalcs_def Let_def)

lemma travelSavings_eq:
  "travelSavings (computeCalcs s) =
     jmul (jmul (jmul (flightsPerYear (computeCalcs s))
                      (jmax (Num 0) (travelHoursSavedPerFlight s)))
                (hourlyRate s))
          (jmax (Num 1) (teamMembers s))"
  by (simp add: computeCalcs_def Let_def)

lemma reworkSavings_eq:
  "reworkSavings (computeCalcs s) =
     jmul (jmul (flightsPerYear (computeCalcs s))
                (jmax (Num 0) (jsub (reworkRateBaseline s) (reworkRateWithDD s))))
          (jmax (Num 0) (avgReworkCostPerProject s))"
  by (simp add: computeCalcs_def Let_def)

lemma safetySavings_eq:
  "safetySavings (computeCalcs s) =
     jmul (jmax (Num 0) (jsub (safetyIncidentsBaseline s) (safetyIncidentsWithDD s)))
          (jmax (Num 0) (costPerSafetyIncident s))"
  by (simp add: computeCalcs_def Let_def)

lemma travelSavings2_eq:
  "travelSavings2 (computeCalcs s) =
     jmul (jmax (Num 0) (jor (estimated_total_travel_costs_per_year s) (Num 0)))
          (jmax (Num 0) (jnullish (travel_reduction_pct s) (Num 0)))"
  by (simp add: computeCalcs_def Let_def)

lemma diSavings_eq:
  "diSavings (computeCalcs s) =
     jmul (jmax (Num 0)
             (jor (estimated_total_destructive_investigation_expenses_per_year s) (Num 0)))
          (jmax (Num 0) (jnullish (investigations_reduction_pct s) (Num 0)))"
  by (simp add: computeCalcs_def Let_def)

lemma docSavings_eq:
  "docSavings (computeCalcs s) =
     jmul (jmax (Num 0)
             (jadd (jor (estimated_cost_of_organizing_and_sharing_images_per_year s) (Num 0))
                   (jor (estimated_cost_of_safety_and_qa_qc_inspections_per_year s) (Num 0))))
          (jmax (Num 0) (jnullish (doc_efficiency_improvement_pct s) (Num 0)))"
  by (simp add: computeCalcs_def Let_def)

lemma insuranceSavings2_eq:
  "insuranceSavings2 (computeCalcs s) =
     jmul (jmax (Num 0) (jor (estimated_total_insurance_costs_per_year s) (Num 0)))
          (jmax (Num 0) (jnullish (insurance_premium_reduction_pct s) (Num 0)))"
  by (simp add: computeCalcs_def Let_def)

lemma workingHoursPerDay_eq:
  "workingHoursPerDay (computeCalcs s) = jmax (Num 1) (jor (working_hours_per_day s) (Num 8))"
  by (simp add: computeCalcs_def Let_def)

lemma revenuePerDay_eq:
  "revenuePerDay (computeCalcs s) =
     jmax (Num 0)
       (jor (revenue_per_day s)
            (jdiv (jmul (jor (average_construction_cost s) (Num 0))
                        (jmax (Num 0) (jor (number_of_projects_per_year s) (Num 0))))
                  (Num 365)))"
  by (simp add: computeCalcs_def Let_def)

lemma scheduleDaysSaved_eq:
  "scheduleDaysSaved (computeCalcs s) =
     jmul (jdiv (hoursSavedAnnual (computeCalcs s)) (workingHoursPerDay (computeCalcs s)))
          (jmax (Num 0) (jnullish (schedule_acceleration_pct s) (Num 0)))"
  by (simp add: computeCalcs_def Let_def)

lemma scheduleRevenueGain_eq:
  "scheduleRevenueGain (computeCalcs s) =
     jmul (revenuePerDay (computeCalcs s)) (scheduleDaysSaved (computeCalcs s))"
  by (simp add: computeCalcs_def Let_def)

lemma winMoreRevenueGain_eq:
  "winMoreRevenueGain (computeCalcs s) =
     jmax (Num 0)
       (jmul (jmul (jor (average_construction_cost s) (Num 0))
                   (jmax (Num 0) (jor (number_of_projects_you_submit_for_bid s) (Num 0))))
             (jmax (Num 0) (jnullish (win_rate_uplift_pct s) (Num 0))))"
  by (simp add: computeCalcs_def Let_def)

lemma totalSavings_eq:
  "totalSavings (computeCalcs s) =
     jadd (jadd (opsSavings (computeCalcs s)) (efficiencyGains2 (computeCalcs s)))
          (increasedRevenues2 (computeCalcs s))"
  by (simp add: computeCalcs_def Let_def)

lemma opsSavings_eq:
  "opsSavings (computeCalcs s) =
     jadd (jadd (jadd (laborSavings (computeCalcs s)) (travelSavings (computeCalcs s)))
                (reworkSavings (computeCalcs s)))
          (safetySavings (computeCalcs s))"
  by (simp add: computeCalcs_def Let_def)

lemma efficiencyGains2_eq:
  "efficiencyGains2 (computeCalcs s) =
     jadd (jadd (jadd (travelSavings2 (computeCalcs s)) (diSavings (computeCalcs s)))
                (docSavings (computeCalcs s)))
          (insuranceSavings2 (computeCalcs s))"
  by (simp add: computeCalcs_def Let_def)

lemma increasedRevenues2_eq:
  "increasedRevenues2 (computeCalcs s) =
     jadd (scheduleRevenueGain (computeCalcs s)) (winMoreRevenueGain (computeCalcs s))"
  by (simp add: computeCalcs_def Let_def)

lemma totalCosts_eq:
  "totalCosts (computeCalcs s) =
     jadd (jadd (jmax (Num 0) (softwareAnnualCost s)) (jmax (Num 0) (hardwareAnnualCost s)))
          (jmax (Num 0) (otherAnnualCosts s))"
  by (simp add: computeCalcs_def Let_def)

lemma netAnnual_eq:
  "netAnnual (computeCalcs s) = jsub (totalSavings (computeCalcs s)) (totalCosts (computeCalcs s))"
  by (simp add: computeCalcs_def Let_def)

lemma roiPct_eq:
  "roiPct (computeCalcs s) =
     (if jgt (totalCosts (computeCalcs s)) (Num 0)
      then jdiv (netAnnual (computeCalcs s)) (totalCosts (computeCalcs s)) else Infinity)"
  by (simp add: computeCalcs_def Let_def)

lemma paybackMonths_eq:
  "paybackMonths (computeCalcs s) =
     (if jgt (totalSavings (computeCalcs s)) (Num 0)
      then jmul (jdiv (totalCosts (computeCalcs s)) (totalSavings (computeCalcs s))) (Num 12)
      else Infinity)"
  by (simp add: computeCalcs_def Let_def)

section \<open>Input records\<close>

lemma finite_inputsD:
  assumes "finite_inputs s"
  shows "isFinite (flightsPerWeek s)" "isFinite (weeksPerYear s)" "isFinite (teamMembers s)"
    "isFinite (manualHoursPerFlight s)" "isFinite (droneHoursPerFlight s)"
    "isFinite (hourlyRate s)" "isFinite (travelHoursSavedPerFlight s)"
    "isFinite (avgReworkCostPerProject s)" "isFinite (reworkRateBaseline s)"
    "isFinite (reworkRateWithDD s)" "isFinite (safetyIncidentsBaseline s)"
    "isFinite (safetyIncidentsWithDD s)" "isFinite (costPerSafetyIncident s)"
    "isFinite (softwareAnnualCost s)" "isFinite (hardwareAnnualCost s)"
    "isFinite (otherAnnualCosts s)" "isFinite (number_of_projects_per_year s)"
    "isFinite (average_construction_cost s)"
    "isFinite (number_of_projects_you_submit_for_bid s)"
    "isFinite (estimated_total_travel_costs_per_year s)"
    "isFinite (estimated_total_destructive_investigation_expenses_per_year s)"
    "isFinite (estimated_cost_of_organizing_and_sharing_images_per_year s)"
    "isFinite (estimated_cost_of_safety_and_qa_qc_inspections_per_year s)"
    "isFinite (estimated_total_insurance_costs_per_year s)"
    "isFinite (working_hours_per_day s)" "isFinite (revenue_per_day s)"
    "isFinite (travel_reduction_pct s)" "isFinite (investigations_reduction_pct s)"
    "isFinite (doc_efficiency_improvement_pct s)"
    "isFinite (insurance_premium_reduction_pct s)"
    "isFinite (schedule_acceleration_pct s)" "isFinite (win_rate_uplift_pct s)"
  using assms by (simp_all add: finite_inputs_def)

lemma DEFAULTS_finite: "finite_inputs DEFAULTS"
  by (simp only: finite_inputs_def DEFAULTS_def state.select_convs DEFAULTS_literals
        isFinite.simps simp_thms)

section \<open>Values that are not negative\<close>

text \<open>
  A clamp gives a value that is not negative, and products and quotients of such values
  are not negative either: a product of an infinity and a zero is \<^verbatim>\<open>NaN\<close>.
\<close>

lemma notNegativeE:
  assumes "notNegative v"
  obtains "v = NaN" | "v = Infinity" | r where "v = Num r" and "0 \<le> r"
  using assms by (cases v) (auto simp add: notNegative_def jge_def)

lemma notNegative_simps [simp]:
  "notNegative NaN" "notNegative Infinity" "notNegative (Num r) \<longleftrightarrow> 0 \<le> r"
  by (auto simp add: notNegative_def jge_def)

lemma jge0_notNegative: "jge v (Num 0) \<Longrightarrow> notNegative v"
  by (simp add: notNegative_def)

lemma notNegative_round64: "0 \<le> x \<Longrightarrow> notNegative (round64 x)"
  by (erule round64_nonneg) simp_all

lemma notNegative_jmax0: "notNegative (jmax (Num 0) x)"
  by (cases x) (simp_all add: jmax_def)

lemma notNegative_jmax1: "notNegative (jmax (Num 1) x)"
  by (cases x) (simp_all add: jmax_def)

lemma notNegative_jmul: "notNegative a \<Longrightarrow> notNegative b \<Longrightarrow> notNegative (jmul a b)"
  by (elim notNegativeE)
    (simp_all add: jmul_def inf_of_sign_def notNegative_round64)

lemma notNegative_jdiv: "notNegative a \<Longrightarrow> notNegative b \<Longrightarrow> notNegative (jdiv a b)"
  by (elim notNegativeE)
    (simp_all add: jdiv_def inf_of_sign_def notNegative_round64)

lemmas notNegative_intros =
  notNegative_jmul notNegative_jdiv notNegative_jmax0 notNegative_jmax1

lemma timeSavedPerFlight_notNegative: "notNegative (timeSavedPerFlight (computeCalcs s))"
  unfolding timeSavedPerFlight_eq by (intro notNegative_intros)

lemma hoursSavedAnnual_notNegative:
  "notNegative (flightsPerYear (computeCalcs s)) \<Longrightarrow>
   notNegative (hoursSavedAnnual (computeCalcs s))"
  unfolding hoursSavedAnnual_eq by (intro notNegative_jmul timeSavedPerFlight_notNegative)

lemma laborSavings_notNegative:
  "notNegative (flightsPerYear (computeCalcs s)) \<Longrightarrow> notNegative (hourlyRate s) \<Longrightarrow>
   notNegative (laborSavings (computeCalcs s))"
  unfolding laborSavings_eq by (intro notNegative_jmul hoursSavedAnnual_notNegative)

lemma travelSavings_notNegative:
  "notNegative (flightsPerYear (computeCalcs s)) \<Longrightarrow> notNegative (hourlyRate s) \<Longrightarrow>
   notNegative (travelSavings (computeCalcs s))"
  unfolding travelSavings_eq by (intro notNegative_intros)

lemma reworkSavings_notNegative:
  "notNegative (flightsPerYear (computeCalcs s)) \<Longrightarrow>
   notNegative (reworkSavings (computeCalcs s))"
  unfolding reworkSavings_eq by (intro notNegative_intros)

lemma safetySavings_notNegative: "notNegative (safetySavings (computeCalcs s))"
  unfolding safetySavings_eq by (intro notNegative_intros)

lemma travelSavings2_notNegative: "notNegative (travelSavings2 (computeCalcs s))"
  unfolding travelSavings2_eq by (intro notNegative_intros)

lemma diSavings_notNegative: "notNegative (diSavings (computeCalcs s))"
  unfolding diSavings_eq by (intro notNegative_intros)

lemma docSavings_notNegative: "notNegative (docSavings (computeCalcs s))"
  unfolding docSavings_eq by (intro notNegative_intros)

lemma insuranceSavings2_notNegative: "notNegative (insuranceSavings2 (computeCalcs s))"
  unfolding insuranceSavings2_eq by (intro notNegative_intros)

lemma scheduleRevenueGain_notNegative:
  "notNegative (flightsPerYear (computeCalcs s)) \<Longrightarrow>
   notNegative (scheduleRevenueGain (computeCalcs s))"
  unfolding scheduleRevenueGain_eq scheduleDaysSaved_eq revenuePerDay_eq workingHoursPerDay_eq
  by (intro notNegative_intros hoursSavedAnnual_notNegative)

lemma winMoreRevenueGain_notNegative: "notNegative (winMoreRevenueGain (computeCalcs s))"
  unfolding winMoreRevenueGain_eq by (intro notNegative_intros)

section \<open>Zero factors, clamped differences and doubles\<close>

lemma jmul_zero_right: "isFinite a \<Longrightarrow> jmul a (Num 0) = Num 0"
  by (elim isFiniteE) simp

lemma jmul_zero_left: "isFinite a \<Longrightarrow> jmul (Num 0) a = Num 0"
  by (elim isFiniteE) simp

lemma jmax0_round64_nonpos: "x \<le> 0 \<Longrightarrow> jmax (Num 0) (round64 x) = Num 0"
  by (erule round64_nonpos) (simp_all add: jmax_def)

lemma jmax0_jsub_le:
  "isFinite a \<Longrightarrow> isFinite b \<Longrightarrow> jge b a \<Longrightarrow> jmax (Num 0) (jsub a b) = Num 0"
  by (elim isFiniteE) (simp add: jmax0_round64_nonpos)

lemma negative_truthy: "jgt (Num 0) v \<Longrightarrow> truthy v"
  by (cases v) (simp_all add: jgt_def)

lemma jmax0_negative: "jgt (Num 0) v \<Longrightarrow> jmax (Num 0) v = Num 0"
  by (cases v) (simp_all add: jgt_def jmax_def)

text \<open>A value that is at least zero: the clamp leaves it, and so do rounded operations.\<close>

lemma jge0_cases:
  assumes "jge v (Num 0)"
  obtains "v = Infinity" | r where "v = Num r" and "0 \<le> r"
  using assms by (cases v) (auto simp add: jge_def)

lemma jmax0_jge0: "jge v (Num 0) \<Longrightarrow> jmax (Num 0) v = v"
  by (erule jge0_cases) (simp_all add: jmax_def max_def)

lemma jge0_round64: "0 \<le> x \<Longrightarrow> jge (round64 x) (Num 0)"
  by (erule round64_nonneg) (auto simp add: jge_def)

lemma jge0_jmul: "0 \<le> a \<Longrightarrow> 0 \<le> b \<Longrightarrow> jge (jmul (Num a) (Num b)) (Num 0)"
  by (simp add: jge0_round64)

lemma jge0_jdiv365: "jge v (Num 0) \<Longrightarrow> jge (jdiv v (Num 365)) (Num 0)"
  by (erule jge0_cases) (simp add: jdiv_def inf_of_sign_def jge_def, simp add: jdiv_Num jge0_round64)

text \<open>Products and quotients of an infinity and of \<^verbatim>\<open>NaN\<close>.\<close>

lemma jmul_NaN_left: "jmul NaN b = NaN"
  by (cases "toNumber b") (simp_all add: jmul_def)

lemma jmul_Infinity_zero: "jmul Infinity (Num 0) = NaN" "jmul (Num 0) Infinity = NaN"
  by (simp_all add: jmul_def inf_of_sign_def)

lemma jmul_Infinity_one: "jmul Infinity (Num 1) = Infinity"
  by (simp add: jmul_def inf_of_sign_def)

lemma jdiv_Infinity_one: "jdiv Infinity (Num 1) = Infinity"
  by (simp add: jdiv_def inf_of_sign_def)

lemma jor_falsy: "\<not> truthy a \<Longrightarrow> jor a b = b"
  by (simp add: jor_def)

text \<open>A finite sum is a double, and a double \<open>t > 0\<close> has \<open>(0 - t) / t = -1\<close>.\<close>

lemma jadd_double: "jadd a b = Num t \<Longrightarrow> round64 t = Num t"
  by (cases a; cases b) (simp_all add: jadd_def round64_idem)

lemma roi_minus_one:
  assumes "round64 t = Num t" and "0 < t"
  shows "jdiv (jsub (Num 0) (Num t)) (Num t) = Num (- 1)"
proof -
  have "jsub (Num 0) (Num t) = Num (- t)"
    using round64_minus [of t] by (simp add: assms(1))
  with assms(2) show ?thesis
    by simp
qed

section \<open>Clamped inputs\<close>

text \<open>The fields of \<open>clampInputs s\<close>, and why clamping twice is clamping once.\<close>

lemma clampInputs_fields:
  "flightsPerWeek (clampInputs s) = flightsPerWeek s"
  "weeksPerYear (clampInputs s) = weeksPerYear s"
  "teamMembers (clampInputs s) = jmax (Num 1) (teamMembers s)"
  "manualHoursPerFlight (clampInputs s) = manualHoursPerFlight s"
  "droneHoursPerFlight (clampInputs s) = droneHoursPerFlight s"
  "hourlyRate (clampInputs s) = hourlyRate s"
  "travelHoursSavedPerFlight (clampInputs s) = jmax (Num 0) (travelHoursSavedPerFlight s)"
  "avgReworkCostPerProject (clampInputs s) = jmax (Num 0) (avgReworkCostPerProject s)"
  "reworkRateBaseline (clampInputs s) = reworkRateBaseline s"
  "reworkRateWithDD (clampInputs s) = reworkRateWithDD s"
  "safetyIncidentsBaseline (clampInputs s) = safetyIncidentsBaseline s"
  "safetyIncidentsWithDD (clampInputs s) = safetyIncidentsWithDD s"
  "costPerSafetyIncident (clampInputs s) = jmax (Num 0) (costPerSafetyIncident s)"
  "softwareAnnualCost (clampInputs s) = jmax (Num 0) (softwareAnnualCost s)"
  "hardwareAnnualCost (clampInputs s) = jmax (Num 0) (hardwareAnnualCost s)"
  "otherAnnualCosts (clampInputs s) = jmax (Num 0) (otherAnnualCosts s)"
  "number_of_projects_per_year (clampInputs s) = jmax (Num 0) (number_of_projects_per_year s)"
  "average_construction_cost (clampInputs s) = average_construction_cost s"
  "number_of_projects_you_submit_for_bid (clampInputs s) =
     jmax (Num 0) (number_of_projects_you_submit_for_bid s)"
  "estimated_total_travel_costs_per_year (clampInputs s) =
     jmax (Num 0) (estimated_total_travel_costs_per_year s)"
  "estimated_total_destructive_investigation_expenses_per_year (clampInputs s) =
     jmax (Num 0) (estimated_total_destructive_investigation_expenses_per_year s)"
  "estimated_cost_of_organizing_and_sharing_images_per_year (clampInputs s) =
     estimated_cost_of_organizing_and_sharing_images_per_year s"
  "estimated_cost_of_safety_and_qa_qc_inspections_per_year (clampInputs s) =
     estimated_cost_of_safety_and_qa_qc_inspections_per_year s"
  "estimated_total_insurance_costs_per_year (clampInputs s) =
     jmax (Num 0) (estimated_total_insurance_costs_per_year s)"
  "working_hours_per_day (clampInputs s) = working_hours_per_day s"
  "revenue_per_day (clampInputs s) = revenue_per_day s"
  "travel_reduction_pct (clampInputs s) = jmax (Num 0) (travel_reduction_pct s)"
  "investigations_reduction_pct (clampInputs s) = jmax (Num 0) (investigations_reduction_pct s)"
  "doc_efficiency_improvement_pct (clampInputs s) =
     jmax (Num 0) (doc_efficiency_improvement_pct s)"
  "insurance_premium_reduction_pct (clampInputs s) =
     jmax (Num 0) (insurance_premium_reduction_pct s)"
  "schedule_acceleration_pct (clampInputs s) = jmax (Num 0) (schedule_acceleration_pct s)"
  "win_rate_uplift_pct (clampInputs s) = jmax (Num 0) (win_rate_uplift_pct s)"
  by (simp_all add: clampInputs_def)

lemma jmax_left_idem: "jmax a (jmax a x) = jmax a x"
  by (cases a; cases x; simp add: jmax_def)

lemma jmax0_jor_clamped:
  "jmax (Num 0) (jor (jmax (Num 0) x) (Num 0)) = jmax (Num 0) (jor x (Num 0))"
  by (cases x) (simp_all add: jmax_def jor_def max_def)

lemma jmax0_jnullish_clamped:
  "isFinite x \<Longrightarrow>
   jmax (Num 0) (jnullish (jmax (Num 0) x) (Num 0)) = jmax (Num 0) (jnullish x (Num 0))"
  by (elim isFiniteE) simp

lemma computeCalcs_clampInputs:
  assumes "finite_inputs s"
  shows "computeCalcs (clampInputs s) = computeCalcs s"
  by (simp only: computeCalcs_def clampInputs_fields jmax_left_idem jmax0_jor_clamped
        jmax0_jnullish_clamped finite_inputsD[OF assms])

lemma workingHoursPerDay_cases:
  "isFinite w \<Longrightarrow>
   jmax (Num 1) (jor w (Num 8)) = (if w = Num 0 then Num 8 else jmax (Num 1) w)"
  by (elim isFiniteE) simp

section \<open>Non-negativity of the breakdown\<close>




section \<open>Clamping of the inputs\<close>




section \<open>ROI and payback\<close>

text \<open>
  C3 (as amended). For every input: \<^verbatim>\<open>roiPct\<close> is \<^verbatim>\<open>netAnnual / totalCosts\<close> when
  \<^verbatim>\<open>totalCosts > 0\<close> and \<^verbatim>\<open>Infinity\<close> when \<^verbatim>\<open>totalCosts\<close> is \<open>0\<close>;
  \<^verbatim>\<open>paybackMonths\<close> is \<^verbatim>\<open>(totalCosts / totalSavings) * 12\<close> when
  \<^verbatim>\<open>totalSavings > 0\<close> and \<^verbatim>\<open>Infinity\<close> when \<^verbatim>\<open>totalSavings\<close> is \<open>0\<close>. With
  the three annual costs zero and \<^verbatim>\<open>totalSavings = 500\<close>, \<^verbatim>\<open>roiPct\<close> is
  \<^verbatim>\<open>Infinity\<close> and \<^verbatim>\<open>paybackMonths\<close> is \<open>0\<close>. With all ten savings terms zero and
  \<^verbatim>\<open>totalCosts > 0\<close> finite, \<^verbatim>\<open>paybackMonths\<close> is \<^verbatim>\<open>Infinity\<close> and \<^verbatim>\<open>roiPct\<close> is
  \<^verbatim>\<open>netAnnual / totalCosts = -1\<close>.
\<close>

theorem roi_and_payback:
  "(jgt (totalCosts (computeCalcs s)) (Num 0) \<longrightarrow>
      roiPct (computeCalcs s) = jdiv (netAnnual (computeCalcs s)) (totalCosts (computeCalcs s))) \<and>
   (totalCosts (computeCalcs s) = Num 0 \<longrightarrow> roiPct (computeCalcs s) = Infinity) \<and>
   (jgt (totalSavings (computeCalcs s)) (Num 0) \<longrightarrow>
      paybackMonths (computeCalcs s) =
        jmul (jdiv (totalCosts (computeCalcs s)) (totalSavings (computeCalcs s))) (Num 12)) \<and>
   (totalSavings (computeCalcs s) = Num 0 \<longrightarrow> paybackMonths (computeCalcs s) = Infinity) \<and>
   (softwareAnnualCost s = Num 0 \<and> hardwareAnnualCost s = Num 0 \<and>
    otherAnnualCosts s = Num 0 \<and> totalSavings (computeCalcs s) = Num 500 \<longrightarrow>
      roiPct (computeCalcs s) = Infinity \<and> paybackMonths (computeCalcs s) = Num 0) \<and>
   ((\<forall>it \<in> set (breakdown (computeCalcs s)). val it = Num 0) \<and>
    isFinite (totalCosts (computeCalcs s)) \<and> jgt (totalCosts (computeCalcs s)) (Num 0) \<longrightarrow>
      paybackMonths (computeCalcs s) = Infinity \<and>
      roiPct (computeCalcs s) = jdiv (netAnnual (computeCalcs s)) (totalCosts (computeCalcs s)) \<and>
      roiPct (computeCalcs s) = Num (- 1))"
proof -
  have roi_pos: "roiPct (computeCalcs s) =
      jdiv (netAnnual (computeCalcs s)) (totalCosts (computeCalcs s))"
    if "jgt (totalCosts (computeCalcs s)) (Num 0)"
    using that by (simp add: roiPct_eq)
  have roi_zero: "roiPct (computeCalcs s) = Infinity" if "totalCosts (computeCalcs s) = Num 0"
    using that by (simp add: roiPct_eq)
  have pay_pos: "paybackMonths (computeCalcs s) =
      jmul (jdiv (totalCosts (computeCalcs s)) (totalSavings (computeCalcs s))) (Num 12)"
    if "jgt (totalSavings (computeCalcs s)) (Num 0)"
    using that by (simp add: paybackMonths_eq)
  have pay_zero: "paybackMonths (computeCalcs s) = Infinity"
    if "totalSavings (computeCalcs s) = Num 0"
    using that by (simp add: paybackMonths_eq)
  have zero_cost: "roiPct (computeCalcs s) = Infinity \<and> paybackMonths (computeCalcs s) = Num 0"
    if "softwareAnnualCost s = Num 0" "hardwareAnnualCost s = Num 0"
      "otherAnnualCosts s = Num 0" "totalSavings (computeCalcs s) = Num 500"
  proof -
    have "totalCosts (computeCalcs s) = Num 0"
      using that(1-3) by (simp add: totalCosts_eq)
    with that(4) show ?thesis
      by (simp add: roiPct_eq paybackMonths_eq)
  qed
  have zero_savings: "paybackMonths (computeCalcs s) = Infinity \<and>
      roiPct (computeCalcs s) = jdiv (netAnnual (computeCalcs s)) (totalCosts (computeCalcs s)) \<and>
      roiPct (computeCalcs s) = Num (- 1)"
    if all0: "\<forall>it \<in> set (breakdown (computeCalcs s)). val it = Num 0"
      and fin: "isFinite (totalCosts (computeCalcs s))"
      and pos: "jgt (totalCosts (computeCalcs s)) (Num 0)"
  proof -
    from all0 have sav: "totalSavings (computeCalcs s) = Num 0"
      by (simp add: breakdown_computeCalcs totalSavings_eq opsSavings_eq efficiencyGains2_eq
            increasedRevenues2_eq)
    from fin obtain t where t: "totalCosts (computeCalcs s) = Num t"
      by (rule isFiniteE)
    from pos have "0 < t"
      by (simp add: t)
    moreover have "round64 t = Num t"
      using t unfolding totalCosts_eq by (rule jadd_double)
    ultimately have "jdiv (jsub (Num 0) (Num t)) (Num t) = Num (- 1)"
      by (intro roi_minus_one)
    then have "jdiv (netAnnual (computeCalcs s)) (totalCosts (computeCalcs s)) = Num (- 1)"
      by (simp only: netAnnual_eq sav t)
    with pos sav show ?thesis
      by (simp only: pay_zero roi_pos simp_thms)
  qed
  from roi_pos roi_zero pay_pos pay_zero zero_cost zero_savings show ?thesis
    by blast
qed

text \<open>
  Two inputs: no cost and a saving of \<open>500\<close> (one avoided incident at \<open>500\<close>), and no
  saving at a cost of \<open>100\<close>.
\<close>

theorem roi_and_payback_witness:
  "totalSavings (computeCalcs
     (ZEROS\<lparr>safetyIncidentsBaseline := Num 1, costPerSafetyIncident := Num 500\<rparr>)) = Num 500 \<and>
   totalCosts (computeCalcs
     (ZEROS\<lparr>safetyIncidentsBaseline := Num 1, costPerSafetyIncident := Num 500\<rparr>)) = Num 0 \<and>
   roiPct (computeCalcs
     (ZEROS\<lparr>safetyIncidentsBaseline := Num 1, costPerSafetyIncident := Num 500\<rparr>)) = Infinity \<and>
   paybackMonths (computeCalcs
     (ZEROS\<lparr>safetyIncidentsBaseline := Num 1, costPerSafetyIncident := Num 500\<rparr>)) = Num 0 \<and>
   list_all (\<lambda>it. val it = Num 0) (breakdown (computeCalcs (ZEROS\<lparr>softwareAnnualCost := Num 100\<rparr>))) \<and>
   totalCosts (computeCalcs (ZEROS\<lparr>softwareAnnualCost := Num 100\<rparr>)) = Num 100 \<and>
   paybackMonths (computeCalcs (ZEROS\<lparr>softwareAnnualCost := Num 100\<rparr>)) = Infinity \<and>
   roiPct (computeCalcs (ZEROS\<lparr>softwareAnnualCost := Num 100\<rparr>)) = Num (- 1)"
proof -
  let ?a = "ZEROS\<lparr>safetyIncidentsBaseline := Num 1, costPerSafetyIncident := Num 500\<rparr>"
  let ?b = "ZEROS\<lparr>softwareAnnualCost := Num 100\<rparr>"
  have ca: "softwareAnnualCost ?a = Num 0" "hardwareAnnualCost ?a = Num 0"
    "otherAnnualCosts ?a = Num 0"
    by (simp_all add: ZEROS_def)
  have ta: "totalCosts (computeCalcs ?a) = Num 0"
    by (simp add: totalCosts_eq ZEROS_def)
  have sa: "totalSavings (computeCalcs ?a) = Num 500"
    by (simp add: totalSavings_eq opsSavings_eq efficiencyGains2_eq increasedRevenues2_eq
          laborSavings_eq travelSavings_eq reworkSavings_eq safetySavings_eq travelSavings2_eq
          diSavings_eq docSavings_eq insuranceSavings2_eq scheduleRevenueGain_eq
          scheduleDaysSaved_eq revenuePerDay_eq workingHoursPerDay_eq winMoreRevenueGain_eq
          hoursSavedAnnual_eq flightsPerYear_eq timeSavedPerFlight_eq ZEROS_def)
  have zb: "\<forall>it \<in> set (breakdown (computeCalcs ?b)). val it = Num 0"
    by (simp add: breakdown_computeCalcs
          laborSavings_eq travelSavings_eq reworkSavings_eq safetySavings_eq travelSavings2_eq
          diSavings_eq docSavings_eq insuranceSavings2_eq scheduleRevenueGain_eq
          scheduleDaysSaved_eq revenuePerDay_eq workingHoursPerDay_eq winMoreRevenueGain_eq
          hoursSavedAnnual_eq flightsPerYear_eq timeSavedPerFlight_eq ZEROS_def)
  have tb: "totalCosts (computeCalcs ?b) = Num 100"
    by (simp add: totalCosts_eq ZEROS_def)
  then have fb: "isFinite (totalCosts (computeCalcs ?b))"
    and pb: "jgt (totalCosts (computeCalcs ?b)) (Num 0)"
    by simp_all
  from roi_and_payback [of ?a] ca sa
  have ra: "roiPct (computeCalcs ?a) = Infinity \<and> paybackMonths (computeCalcs ?a) = Num 0"
    by blast
  from roi_and_payback [of ?b] zb fb pb
  have rb: "paybackMonths (computeCalcs ?b) = Infinity \<and> roiPct (computeCalcs ?b) = Num (- 1)"
    by blast
  from zb have lb: "list_all (\<lambda>it. val it = Num 0) (breakdown (computeCalcs ?b))"
    by (simp only: list_all_iff)
  from sa ta ra lb tb rb show ?thesis
    by (simp only: simp_thms)
qed

text \<open>
  The claim as stated fails when \<^verbatim>\<open>totalCosts\<close> overflows. With every input zero but
  \<^verbatim>\<open>softwareAnnualCost = hardwareAnnualCost = 2 ^ 1023\<close>, both finite, the ten savings terms
  are zero and \<^verbatim>\<open>totalCosts = Infinity > 0\<close>, but \<^verbatim>\<open>netAnnual = -Infinity\<close> and
  \<^verbatim>\<open>roiPct = -Infinity / Infinity\<close> is \<^verbatim>\<open>NaN\<close>, not \<open>-1\<close>.
\<close>

theorem roi_and_payback_counterexample:
  "finite_inputs (ZEROS\<lparr>softwareAnnualCost := Num (2 ^ 1023),
     hardwareAnnualCost := Num (2 ^ 1023)\<rparr>) \<and>
   isDouble (2 ^ 1023) \<and>
   list_all (\<lambda>it. val it = Num 0) (breakdown (computeCalcs
     (ZEROS\<lparr>softwareAnnualCost := Num (2 ^ 1023), hardwareAnnualCost := Num (2 ^ 1023)\<rparr>))) \<and>
   totalCosts (computeCalcs
     (ZEROS\<lparr>softwareAnnualCost := Num (2 ^ 1023), hardwareAnnualCost := Num (2 ^ 1023)\<rparr>))
     = Infinity \<and>
   jgt Infinity (Num 0) \<and>
   roiPct (computeCalcs
     (ZEROS\<lparr>softwareAnnualCost := Num (2 ^ 1023), hardwareAnnualCost := Num (2 ^ 1023)\<rparr>))
     = NaN \<and>
   NaN \<noteq> Num (- 1)"
proof -
  let ?s = "ZEROS\<lparr>softwareAnnualCost := Num (2 ^ 1023), hardwareAnnualCost := Num (2 ^ 1023)\<rparr>"
  have f: "finite_inputs ?s"
    by (simp add: finite_inputs_def ZEROS_def)
  have z: "list_all (\<lambda>it. val it = Num 0) (breakdown (computeCalcs ?s))"
    by (simp add: breakdown_computeCalcs
          laborSavings_eq travelSavings_eq reworkSavings_eq safetySavings_eq travelSavings2_eq
          diSavings_eq docSavings_eq insuranceSavings2_eq scheduleRevenueGain_eq
          scheduleDaysSaved_eq revenuePerDay_eq workingHoursPerDay_eq winMoreRevenueGain_eq
          hoursSavedAnnual_eq flightsPerYear_eq timeSavedPerFlight_eq ZEROS_def)
  have t: "totalCosts (computeCalcs ?s) = Infinity"
    by (simp add: totalCosts_eq ZEROS_def round64_overflow jadd_def)
  have sav: "totalSavings (computeCalcs ?s) = Num 0"
    using z by (simp add: breakdown_computeCalcs totalSavings_eq opsSavings_eq
          efficiencyGains2_eq increasedRevenues2_eq)
  have r: "roiPct (computeCalcs ?s) = NaN"
    by (simp only: roiPct_eq netAnnual_eq t sav)
      (simp add: jgt_def jsub_def jdiv_def inf_of_sign_def)
  have g: "jgt Infinity (Num 0)"
    by (simp add: jgt_def)
  from f isDouble_pow2_1023 z t g r show ?thesis
    by (simp only: simp_thms jsval.distinct)
qed

section \<open>The revenue-per-day fallback\<close>




section \<open>Floor invariants\<close>

text \<open>
  C5 (as amended). If \<^verbatim>\<open>reworkRateBaseline <= reworkRateWithDD\<close>, both finite, and
  \<^verbatim>\<open>flightsPerYear = flightsPerWeek * weeksPerYear\<close> and \<^verbatim>\<open>avgReworkCostPerProject\<close> are
  finite, then \<^verbatim>\<open>reworkSavings\<close> is \<open>0\<close>; and if
  \<^verbatim>\<open>safetyIncidentsBaseline <= safetyIncidentsWithDD\<close>, both finite, and
  \<^verbatim>\<open>costPerSafetyIncident\<close> is finite, then \<^verbatim>\<open>safetySavings\<close> is \<open>0\<close>.
\<close>

theorem floor_invariants:
  "(isFinite (reworkRateBaseline s) \<and> isFinite (reworkRateWithDD s) \<and>
    jge (reworkRateWithDD s) (reworkRateBaseline s) \<and>
    isFinite (flightsPerYear (computeCalcs s)) \<and> isFinite (avgReworkCostPerProject s) \<longrightarrow>
      reworkSavings (computeCalcs s) = Num 0) \<and>
   (isFinite (safetyIncidentsBaseline s) \<and> isFinite (safetyIncidentsWithDD s) \<and>
    jge (safetyIncidentsWithDD s) (safetyIncidentsBaseline s) \<and>
    isFinite (costPerSafetyIncident s) \<longrightarrow>
      safetySavings (computeCalcs s) = Num 0)"
proof (intro conjI impI; elim conjE)
  assume fin: "isFinite (reworkRateBaseline s)" "isFinite (reworkRateWithDD s)"
    and le: "jge (reworkRateWithDD s) (reworkRateBaseline s)"
    and fpy: "isFinite (flightsPerYear (computeCalcs s))"
    and cost: "isFinite (avgReworkCostPerProject s)"
  have "jmax (Num 0) (jsub (reworkRateBaseline s) (reworkRateWithDD s)) = Num 0"
    using fin le by (rule jmax0_jsub_le)
  moreover have "isFinite (jmax (Num 0) (avgReworkCostPerProject s))"
    using cost by (intro isFinite_jmax isFinite_Num)
  ultimately show "reworkSavings (computeCalcs s) = Num 0"
    using fpy by (simp add: reworkSavings_eq jmul_zero_right jmul_zero_left)
next
  assume fin: "isFinite (safetyIncidentsBaseline s)" "isFinite (safetyIncidentsWithDD s)"
    and le: "jge (safetyIncidentsWithDD s) (safetyIncidentsBaseline s)"
    and cost: "isFinite (costPerSafetyIncident s)"
  have "jmax (Num 0) (jsub (safetyIncidentsBaseline s) (safetyIncidentsWithDD s)) = Num 0"
    using fin le by (rule jmax0_jsub_le)
  moreover have "isFinite (jmax (Num 0) (costPerSafetyIncident s))"
    using cost by (intro isFinite_jmax isFinite_Num)
  ultimately show "safetySavings (computeCalcs s) = Num 0"
    by (simp add: safetySavings_eq jmul_zero_left)
qed

text \<open>
  The defaults with a rework rate that rises from \<open>0.25\<close> to \<open>0.5\<close> and with two
  incidents before and after: 240 flights a year, a rework cost of 1200.
\<close>

theorem floor_invariants_witness:
  "jge (Num (1 / 2)) (Num (1 / 4)) \<and> jge (Num 2) (Num 2) \<and>
   flightsPerYear (computeCalcs (DEFAULTS\<lparr>reworkRateBaseline := Num (1 / 4),
     reworkRateWithDD := Num (1 / 2), safetyIncidentsWithDD := Num 2\<rparr>)) = Num 240 \<and>
   reworkSavings (computeCalcs (DEFAULTS\<lparr>reworkRateBaseline := Num (1 / 4),
     reworkRateWithDD := Num (1 / 2), safetyIncidentsWithDD := Num 2\<rparr>)) = Num 0 \<and>
   safetySavings (computeCalcs (DEFAULTS\<lparr>reworkRateBaseline := Num (1 / 4),
     reworkRateWithDD := Num (1 / 2), safetyIncidentsWithDD := Num 2\<rparr>)) = Num 0"
proof -
  let ?s = "DEFAULTS\<lparr>reworkRateBaseline := Num (1 / 4), reworkRateWithDD := Num (1 / 2),
     safetyIncidentsWithDD := Num 2\<rparr>"
  have y: "flightsPerYear (computeCalcs ?s) = Num 240"
    by (simp add: flightsPerYear_eq DEFAULTS_def)
  have r: "isFinite (reworkRateBaseline ?s)" "isFinite (reworkRateWithDD ?s)"
    "jge (reworkRateWithDD ?s) (reworkRateBaseline ?s)"
    "isFinite (flightsPerYear (computeCalcs ?s))" "isFinite (avgReworkCostPerProject ?s)"
    by (simp_all add: y) (simp add: DEFAULTS_def)
  have i: "isFinite (safetyIncidentsBaseline ?s)" "isFinite (safetyIncidentsWithDD ?s)"
    "jge (safetyIncidentsWithDD ?s) (safetyIncidentsBaseline ?s)"
    "isFinite (costPerSafetyIncident ?s)"
    by (simp_all add: DEFAULTS_def)
  from floor_invariants [of ?s] r i
  have "reworkSavings (computeCalcs ?s) = Num 0" "safetySavings (computeCalcs ?s) = Num 0"
    by blast+
  with y show ?thesis by simp
qed

text \<open>
  The claim as stated fails when \<^verbatim>\<open>flightsPerYear\<close> overflows. With every input zero but
  \<^verbatim>\<open>flightsPerWeek = 2 ^ 1023\<close>, \<^verbatim>\<open>weeksPerYear = 2\<close> and rework rates \<open>0.25 \<le> 0.5\<close>,
  all finite, \<^verbatim>\<open>flightsPerYear\<close> is \<^verbatim>\<open>Infinity\<close>, the clamped rate difference is \<open>0\<close>, and
  \<^verbatim>\<open>reworkSavings = Infinity * 0 * 0\<close> is \<^verbatim>\<open>NaN\<close>, not \<open>0\<close>.
\<close>

theorem floor_invariants_counterexample:
  "finite_inputs (ZEROS\<lparr>flightsPerWeek := Num (2 ^ 1023), weeksPerYear := Num 2,
     reworkRateBaseline := Num (1 / 4), reworkRateWithDD := Num (1 / 2)\<rparr>) \<and>
   isDouble (2 ^ 1023) \<and>
   jge (Num (1 / 2)) (Num (1 / 4)) \<and>
   reworkSavings (computeCalcs (ZEROS\<lparr>flightsPerWeek := Num (2 ^ 1023), weeksPerYear := Num 2,
     reworkRateBaseline := Num (1 / 4), reworkRateWithDD := Num (1 / 2)\<rparr>)) = NaN \<and>
   NaN \<noteq> Num 0"
proof -
  let ?s = "ZEROS\<lparr>flightsPerWeek := Num (2 ^ 1023), weeksPerYear := Num 2,
     reworkRateBaseline := Num (1 / 4), reworkRateWithDD := Num (1 / 2)\<rparr>"
  have f: "finite_inputs ?s"
    by (simp add: finite_inputs_def ZEROS_def)
  have y: "flightsPerYear (computeCalcs ?s) = Infinity"
    by (simp add: flightsPerYear_eq round64_overflow)
  have d: "jmax (Num 0) (jsub (reworkRateBaseline ?s) (reworkRateWithDD ?s)) = Num 0"
    by (intro jmax0_jsub_le) simp_all
  have r: "reworkSavings (computeCalcs ?s) = NaN"
    by (simp only: reworkSavings_eq y d jmul_Infinity_zero jmul_NaN_left)
  from f isDouble_pow2_1023 r show ?thesis
    by (simp add: jge_def)
qed

section \<open>The end-to-end example\<close>

text \<open>
  C6. With \<^verbatim>\<open>flightsPerWeek = 5\<close>, \<^verbatim>\<open>weeksPerYear = 48\<close>, \<^verbatim>\<open>teamMembers = 2\<close>,
  \<^verbatim>\<open>manualHoursPerFlight = 3\<close>, \<^verbatim>\<open>droneHoursPerFlight = 1\<close> and \<^verbatim>\<open>hourlyRate = 75\<close>,
  whatever the other inputs are, \<^verbatim>\<open>computeCalcs\<close> yields \<^verbatim>\<open>flightsPerYear = 240\<close>,
  \<^verbatim>\<open>timeSavedPerFlight = 4\<close>, \<^verbatim>\<open>hoursSavedAnnual = 960\<close> and
  \<^verbatim>\<open>laborSavings = 72000\<close>.
\<close>

theorem end_to_end_example:
  assumes "flightsPerWeek s = Num 5" and "weeksPerYear s = Num 48"
    and "teamMembers s = Num 2" and "manualHoursPerFlight s = Num 3"
    and "droneHoursPerFlight s = Num 1" and "hourlyRate s = Num 75"
  shows "flightsPerYear (computeCalcs s) = Num 240 \<and>
         timeSavedPerFlight (computeCalcs s) = Num 4 \<and>
         hoursSavedAnnual (computeCalcs s) = Num 960 \<and>
         laborSavings (computeCalcs s) = Num 72000"
  using assms
  by (simp add: flightsPerYear_eq timeSavedPerFlight_eq hoursSavedAnnual_eq laborSavings_eq)

text \<open>The defaults are these inputs.\<close>

theorem end_to_end_example_witness:
  "flightsPerWeek DEFAULTS = Num 5 \<and> weeksPerYear DEFAULTS = Num 48 \<and>
   teamMembers DEFAULTS = Num 2 \<and> manualHoursPerFlight DEFAULTS = Num 3 \<and>
   droneHoursPerFlight DEFAULTS = Num 1 \<and> hourlyRate DEFAULTS = Num 75 \<and>
   flightsPerYear (computeCalcs DEFAULTS) = Num 240 \<and>
   timeSavedPerFlight (computeCalcs DEFAULTS) = Num 4 \<and>
   hoursSavedAnnual (computeCalcs DEFAULTS) = Num 960 \<and>
   laborSavings (computeCalcs DEFAULTS) = Num 72000"
proof -
  have h: "flightsPerWeek DEFAULTS = Num 5" "weeksPerYear DEFAULTS = Num 48"
    "teamMembers DEFAULTS = Num 2" "manualHoursPerFlight DEFAULTS = Num 3"
    "droneHoursPerFlight DEFAULTS = Num 1" "hourlyRate DEFAULTS = Num 75"
    by (simp_all add: DEFAULTS_def)
  from end_to_end_example [OF h] h show ?thesis by simp
qed

section \<open>Completeness of the breakdown\<close>

text \<open>
  C7. For every input, whatever its values are (finite or not, positive, zero or
  negative), the breakdown returned by \<^verbatim>\<open>computeCalcs\<close> has exactly ten entries, with the
  same ten labels in the same order, and the value of each entry is the savings term of
  its label: no entry is filtered out.
\<close>

theorem breakdown_complete:
  "length (breakdown (computeCalcs s)) = 10 \<and>
   map label (breakdown (computeCalcs s)) =
     [''Ops: Labor time saved'', ''Ops: Travel time saved'', ''Ops: Rework reduction'',
      ''Ops: Safety risk reduction'', ''Travel reduction (from spreadsheet)'',
      ''Destructive investigations avoided'', ''Documentation efficiency'',
      ''Insurance premium reduction'',
      ''Schedule acceleration (days'' @ [CHR 0xE2, CHR 0x86, CHR 0x92] @ ''revenue)'',
      ''Win-rate uplift (revenue)''] \<and>
   map val (breakdown (computeCalcs s)) =
     [laborSavings (computeCalcs s), travelSavings (computeCalcs s),
      reworkSavings (computeCalcs s), safetySavings (computeCalcs s),
      travelSavings2 (computeCalcs s), diSavings (computeCalcs s),
      docSavings (computeCalcs s), insuranceSavings2 (computeCalcs s),
      scheduleRevenueGain (computeCalcs s), winMoreRevenueGain (computeCalcs s)]"
  by (simp add: breakdown_computeCalcs)

section \<open>The breakdown decomposes the total\<close>


section \<open>A negative revenue per day\<close>

text \<open>
  C10 (as amended). Whenever \<^verbatim>\<open>revenue_per_day\<close> is strictly negative, the figure is
  truthy, so the fallback is not applied (the value used is the same whatever the
  construction cost and the number of projects are), and the internally used
  \<^verbatim>\<open>revenuePerDay\<close> is \<open>0\<close>; \<^verbatim>\<open>scheduleRevenueGain\<close> is then \<open>0\<close> whenever
  \<^verbatim>\<open>scheduleDaysSaved\<close> is finite and at least \<open>0\<close>.
\<close>

theorem negative_revenue_per_day:
  assumes "jgt (Num 0) (revenue_per_day s)"
  shows "truthy (revenue_per_day s) \<and>
         revenuePerDay (computeCalcs s) = Num 0 \<and>
         revenuePerDay (computeCalcs
           (s\<lparr>average_construction_cost := a, number_of_projects_per_year := n\<rparr>)) = Num 0 \<and>
         (isFinite (scheduleDaysSaved (computeCalcs s)) \<and>
          jge (scheduleDaysSaved (computeCalcs s)) (Num 0) \<longrightarrow>
            scheduleRevenueGain (computeCalcs s) = Num 0)"
proof -
  have t: "truthy (revenue_per_day s)"
    using assms by (rule negative_truthy)
  have r: "revenuePerDay (computeCalcs s') = Num 0"
    if "revenue_per_day s' = revenue_per_day s" for s' :: "'a state_scheme"
    using that t jmax0_negative [OF assms] by (simp add: revenuePerDay_eq jor_def)
  have "scheduleRevenueGain (computeCalcs s) = Num 0"
    if "isFinite (scheduleDaysSaved (computeCalcs s))"
    using r [of s] that by (simp add: scheduleRevenueGain_eq jmul_zero_left)
  with t r [of s] r [of "s\<lparr>average_construction_cost := a, number_of_projects_per_year := n\<rparr>"]
  show ?thesis by simp
qed

text \<open>
  The defaults with \<^verbatim>\<open>revenue_per_day = -5\<close> and a schedule acceleration of one half:
  \<open>960 / 8 * 0.5 = 60\<close> days saved.
\<close>

theorem negative_revenue_per_day_witness:
  "jgt (Num 0) (revenue_per_day (DEFAULTS\<lparr>revenue_per_day := Num (- 5),
     schedule_acceleration_pct := Num (1 / 2)\<rparr>)) \<and>
   scheduleDaysSaved (computeCalcs (DEFAULTS\<lparr>revenue_per_day := Num (- 5),
     schedule_acceleration_pct := Num (1 / 2)\<rparr>)) = Num 60 \<and>
   revenuePerDay (computeCalcs (DEFAULTS\<lparr>revenue_per_day := Num (- 5),
     schedule_acceleration_pct := Num (1 / 2)\<rparr>)) = Num 0 \<and>
   scheduleRevenueGain (computeCalcs (DEFAULTS\<lparr>revenue_per_day := Num (- 5),
     schedule_acceleration_pct := Num (1 / 2)\<rparr>)) = Num 0"
proof -
  let ?s = "DEFAULTS\<lparr>revenue_per_day := Num (- 5), schedule_acceleration_pct := Num (1 / 2)\<rparr>"
  have g: "jgt (Num 0) (revenue_per_day ?s)"
    by simp
  have d: "scheduleDaysSaved (computeCalcs ?s) = Num 60"
    by (simp add: scheduleDaysSaved_eq workingHoursPerDay_eq hoursSavedAnnual_eq
          flightsPerYear_eq timeSavedPerFlight_eq DEFAULTS_def)
  then have d': "isFinite (scheduleDaysSaved (computeCalcs ?s))"
    "jge (scheduleDaysSaved (computeCalcs ?s)) (Num 0)"
    by simp_all
  from negative_revenue_per_day [OF g] d'
  have "revenuePerDay (computeCalcs ?s) = Num 0"
    "scheduleRevenueGain (computeCalcs ?s) = Num 0"
    by blast+
  with g d show ?thesis
    by (simp only: simp_thms)
qed

text \<open>
  The claim as stated fails when \<^verbatim>\<open>scheduleDaysSaved\<close> overflows. With every input zero
  but \<^verbatim>\<open>revenue_per_day = -5\<close>, \<^verbatim>\<open>flightsPerWeek = 2 ^ 1023\<close>, \<^verbatim>\<open>weeksPerYear = 2\<close>, one
  manual hour per flight, one working hour per day and a schedule acceleration of \<open>1\<close>,
  all finite, \<^verbatim>\<open>scheduleDaysSaved\<close> is \<^verbatim>\<open>Infinity\<close>, which is at least \<open>0\<close>, and
  \<^verbatim>\<open>scheduleRevenueGain = 0 * Infinity\<close> is \<^verbatim>\<open>NaN\<close>, not \<open>0\<close>.
\<close>

theorem negative_revenue_per_day_counterexample:
  "finite_inputs (ZEROS\<lparr>revenue_per_day := Num (- 5), flightsPerWeek := Num (2 ^ 1023),
     weeksPerYear := Num 2, manualHoursPerFlight := Num 1, working_hours_per_day := Num 1,
     schedule_acceleration_pct := Num 1\<rparr>) \<and>
   isDouble (2 ^ 1023) \<and>
   scheduleDaysSaved (computeCalcs (ZEROS\<lparr>revenue_per_day := Num (- 5),
     flightsPerWeek := Num (2 ^ 1023), weeksPerYear := Num 2, manualHoursPerFlight := Num 1,
     working_hours_per_day := Num 1, schedule_acceleration_pct := Num 1\<rparr>)) = Infinity \<and>
   jge Infinity (Num 0) \<and>
   scheduleRevenueGain (computeCalcs (ZEROS\<lparr>revenue_per_day := Num (- 5),
     flightsPerWeek := Num (2 ^ 1023), weeksPerYear := Num 2, manualHoursPerFlight := Num 1,
     working_hours_per_day := Num 1, schedule_acceleration_pct := Num 1\<rparr>)) = NaN \<and>
   NaN \<noteq> Num 0"
proof -
  let ?s = "ZEROS\<lparr>revenue_per_day := Num (- 5), flightsPerWeek := Num (2 ^ 1023),
     weeksPerYear := Num 2, manualHoursPerFlight := Num 1, working_hours_per_day := Num 1,
     schedule_acceleration_pct := Num 1\<rparr>"
  have f: "finite_inputs ?s"
    by (simp add: finite_inputs_def ZEROS_def)
  have y: "flightsPerYear (computeCalcs ?s) = Infinity"
    by (simp add: flightsPerYear_eq round64_overflow)
  have ts: "timeSavedPerFlight (computeCalcs ?s) = Num 1"
    by (simp add: timeSavedPerFlight_eq ZEROS_def)
  have h: "hoursSavedAnnual (computeCalcs ?s) = Infinity"
    by (simp only: hoursSavedAnnual_eq y ts jmul_Infinity_one)
  have w: "workingHoursPerDay (computeCalcs ?s) = Num 1"
    by (simp add: workingHoursPerDay_eq)
  have p: "jmax (Num 0) (jnullish (schedule_acceleration_pct ?s) (Num 0)) = Num 1"
    by simp
  have d: "scheduleDaysSaved (computeCalcs ?s) = Infinity"
    by (simp only: scheduleDaysSaved_eq h w p jdiv_Infinity_one jmul_Infinity_one)
  have r: "revenuePerDay (computeCalcs ?s) = Num 0"
    by (simp add: revenuePerDay_eq)
  have g: "scheduleRevenueGain (computeCalcs ?s) = NaN"
    by (simp only: scheduleRevenueGain_eq r d jmul_Infinity_zero)
  from f isDouble_pow2_1023 d g show ?thesis
    by (simp add: jge_def)
qed

end
